theory Spec2Isabelle
  imports Main
begin

section \<open>Python exceptions and printed output\<close>

text \<open>
  The exceptions that the notebook and the scoring script can meet. Every class except
  \<open>KeyboardInterrupt\<close> derives from Python's \<open>Exception\<close>, which is what a clause
  \<^verbatim>\<open>except Exception as ex\<close> catches.
\<close>

datatype exn =
    OSError
  | ValueError
  | IndexError
  | NameError
  | KeyError
  | ParserError
  | EmptyDataError
  | ConnectionError
  | ComputeTargetException
  | UserErrorException
  | KeyboardInterrupt

fun is_Exception :: "exn \<Rightarrow> bool" where
  "is_Exception KeyboardInterrupt = False"
| "is_Exception _ = True"

text \<open>A line on standard output: a literal text, or \<^verbatim>\<open>print(ex)\<close> of a caught exception.\<close>

datatype printed = Text string | ExnText exn

section \<open>The scoring script \<^verbatim>\<open>batch_diabetes.py\<close>\<close>

subsection \<open>Library functions the script calls\<close>

text \<open>
  \<^verbatim>\<open>np.genfromtxt\<close> gives an array of dimension 0 (a single value), 1 (one line of values)
  or 2 (several lines).
\<close>

datatype 'v ndarray = Scalar 'v | Vec "'v list" | Mat "'v list list"

text \<open>
  \<^verbatim>\<open>data.reshape(1, -1)\<close>: all values, in row-major order, as the single row of a
  two-dimensional array. The function gives that row.
\<close>

fun reshape_row :: "'v ndarray \<Rightarrow> 'v list" where
  "reshape_row (Scalar v) = [v]"
| "reshape_row (Vec vs) = vs"
| "reshape_row (Mat rs) = concat rs"

text \<open>\<^verbatim>\<open>os.path.basename\<close> (POSIX): what follows the last slash.\<close>

definition basename :: "string \<Rightarrow> string" where
  "basename p = rev (takeWhile (\<lambda>c. c \<noteq> CHR ''/'') (rev p))"

text \<open>
  The libraries behind the script, as parameters: reading a file of comma-delimited values,
  the model registry, unpickling, the model's \<open>predict\<close> (a two-dimensional array in, an
  array of predictions out) and the text that \<^verbatim>\<open>"{}".format\<close> gives for a prediction.
\<close>

record ('v, 'm, 'p) libs =
  genfromtxt :: "string \<Rightarrow> exn + 'v ndarray"
  get_model_path :: "string \<Rightarrow> exn + string"
  joblib_load :: "string \<Rightarrow> exn + 'm"
  predict :: "'m \<Rightarrow> 'v list list \<Rightarrow> exn + 'p list"
  str_pred :: "'p \<Rightarrow> string"

subsection \<open>The script's global state and its effects\<close>

datatype ('v, 'm) event =
    GetModelPath string
  | Load string
  | ReadFile string
  | Predict 'm "'v list list"

text \<open>
  The global \<open>model\<close> (unbound until \<open>init\<close> has run) and the calls made so far, in order.
\<close>

record ('v, 'm) script =
  model :: "'m option"
  trace :: "('v, 'm) event list"

definition emit :: "('v, 'm) event \<Rightarrow> ('v, 'm) script \<Rightarrow> ('v, 'm) script" where
  "emit e s = s\<lparr>trace := trace s @ [e]\<rparr>"

subsection \<open>init\<close>

definition init :: "('v, 'm, 'p) libs \<Rightarrow> ('v, 'm) script \<Rightarrow> (exn + unit) \<times> ('v, 'm) script" where
  "init L s =
     (let s1 = emit (GetModelPath ''diabetes_model'') s in
      case get_model_path L ''diabetes_model'' of
        Inl e \<Rightarrow> (Inl e, s1)
      | Inr model_path \<Rightarrow>
          (let s2 = emit (Load model_path) s1 in
           case joblib_load L model_path of
             Inl e \<Rightarrow> (Inl e, s2)
           | Inr m \<Rightarrow> (Inr (), s2\<lparr>model := Some m\<rparr>)))"

subsection \<open>run\<close>

text \<open>\<^verbatim>\<open>"{}: {}".format(os.path.basename(f), prediction[0])\<close>\<close>

definition result_line :: "string \<Rightarrow> string \<Rightarrow> string" where
  "result_line f p = basename f @ '': '' @ p"

text \<open>
  The body of the loop over the mini-batch: read the file, look up the global \<open>model\<close>,
  reshape, predict, take \<open>prediction[0]\<close>, append the formatted line.
\<close>

definition run_body ::
  "('v, 'm, 'p) libs \<Rightarrow> ('v, 'm) script \<Rightarrow> string list \<Rightarrow> string
     \<Rightarrow> (exn + string list) \<times> ('v, 'm) script" where
  "run_body L s resultList f =
     (let s1 = emit (ReadFile f) s in
      case genfromtxt L f of
        Inl e \<Rightarrow> (Inl e, s1)
      | Inr data \<Rightarrow>
          (case model s1 of
             None \<Rightarrow> (Inl NameError, s1)
           | Some m \<Rightarrow>
               (let row = reshape_row data;
                    s2 = emit (Predict m [row]) s1 in
                case predict L m [row] of
                  Inl e \<Rightarrow> (Inl e, s2)
                | Inr prediction \<Rightarrow>
                    (case prediction of
                       [] \<Rightarrow> (Inl IndexError, s2)
                     | p # _ \<Rightarrow> (Inr (resultList @ [result_line f (str_pred L p)]), s2)))))"

fun run_loop ::
  "('v, 'm, 'p) libs \<Rightarrow> ('v, 'm) script \<Rightarrow> string list \<Rightarrow> string list
     \<Rightarrow> (exn + string list) \<times> ('v, 'm) script" where
  "run_loop L s resultList [] = (Inr resultList, s)"
| "run_loop L s resultList (f # fs) =
     (case run_body L s resultList f of
        (Inl e, s') \<Rightarrow> (Inl e, s')
      | (Inr resultList', s') \<Rightarrow> run_loop L s' resultList' fs)"

definition run ::
  "('v, 'm, 'p) libs \<Rightarrow> ('v, 'm) script \<Rightarrow> string list
     \<Rightarrow> (exn + string list) \<times> ('v, 'm) script" where
  "run L s mini_batch = run_loop L s [] mini_batch"

subsection \<open>The step that calls the script\<close>

text \<open>
  What scoring the files of a mini-batch with one given model \<open>m\<close> comes to, stated
  without the script's state, to compare \<open>run\<close> with: the line for each file (or the
  first exception) and the calls made, in order.
\<close>

definition score_file_with_model ::
  "('v, 'm, 'p) libs \<Rightarrow> 'm \<Rightarrow> string \<Rightarrow> (exn + string) \<times> ('v, 'm) event list" where
  "score_file_with_model L m f =
     (case genfromtxt L f of
        Inl e \<Rightarrow> (Inl e, [ReadFile f])
      | Inr a \<Rightarrow>
          (case predict L m [reshape_row a] of
             Inl e \<Rightarrow> (Inl e, [ReadFile f, Predict m [reshape_row a]])
           | Inr [] \<Rightarrow> (Inl IndexError, [ReadFile f, Predict m [reshape_row a]])
           | Inr (p # _) \<Rightarrow>
               (Inr (result_line f (str_pred L p)), [ReadFile f, Predict m [reshape_row a]])))"

fun score_with_model ::
  "('v, 'm, 'p) libs \<Rightarrow> 'm \<Rightarrow> string list \<Rightarrow> (exn + string list) \<times> ('v, 'm) event list" where
  "score_with_model L m [] = (Inr [], [])"
| "score_with_model L m (f # fs) =
     (case score_file_with_model L m f of
        (Inl e, evs) \<Rightarrow> (Inl e, evs)
      | (Inr line, evs) \<Rightarrow>
          (case score_with_model L m fs of
             (Inl e, evs') \<Rightarrow> (Inl e, evs @ evs')
           | (Inr lines, evs') \<Rightarrow> (Inr (line # lines), evs @ evs')))"

text \<open>
  The pipeline step, as the comments of the script have it: \<open>init\<close> runs when the step is
  initialised, \<open>run\<close> runs for each batch. The step ends when \<open>init\<close> raises; a mini-batch
  whose call of \<open>run\<close> raises is recorded with its exception, and the next one is
  processed.
\<close>

fun run_batches ::
  "('v, 'm, 'p) libs \<Rightarrow> ('v, 'm) script \<Rightarrow> string list list
     \<Rightarrow> (exn + string list) list \<times> ('v, 'm) script" where
  "run_batches L s [] = ([], s)"
| "run_batches L s (mini_batch # rest) =
     (case run L s mini_batch of
        (r, s') \<Rightarrow> (case run_batches L s' rest of (rs, s'') \<Rightarrow> (r # rs, s'')))"

definition pipeline_step ::
  "('v, 'm, 'p) libs \<Rightarrow> ('v, 'm) script \<Rightarrow> string list list
     \<Rightarrow> (exn + (exn + string list) list) \<times> ('v, 'm) script" where
  "pipeline_step L s batches =
     (case init L s of
        (Inl e, s') \<Rightarrow> (Inl e, s')
      | (Inr _, s1) \<Rightarrow> (case run_batches L s1 batches of (rs, s2) \<Rightarrow> (Inr rs, s2)))"

section \<open>The notebook: generating the batch data\<close>

text \<open>
  A data frame: its column names and its rows, each row giving the value under a column
  name. The values are kept abstract (\<open>'v\<close>); \<open>fmt\<close> below is the text that
  \<^verbatim>\<open>tofile\<close> writes for one value.
\<close>

record 'v dataframe =
  columns :: "string list"
  rows :: "(string \<Rightarrow> 'v) list"

definition feature_columns :: "string list" where
  "feature_columns =
     [''Pregnancies'', ''PlasmaGlucose'', ''DiastolicBloodPressure'', ''TricepsThickness'',
      ''SerumInsulin'', ''BMI'', ''DiabetesPedigree'', ''Age'']"

text \<open>\<^verbatim>\<open>diabetes[[...]]\<close>: the named columns, a \<open>KeyError\<close> when one of them is missing.\<close>

definition select_columns :: "string list \<Rightarrow> 'v dataframe \<Rightarrow> exn + 'v dataframe" where
  "select_columns cols df =
     (if list_all (\<lambda>c. c \<in> set (columns df)) cols
      then Inr \<lparr>columns = cols, rows = rows df\<rparr>
      else Inl KeyError)"

text \<open>
  \<^verbatim>\<open>.sample(n=100)\<close> draws rows without replacement, and raises \<open>ValueError\<close> when the
  frame has fewer rows than asked for. The random draw is the parameter \<open>idx\<close>: the
  positions of the rows drawn, in the order drawn.
\<close>

definition valid_draw :: "nat \<Rightarrow> nat \<Rightarrow> nat list \<Rightarrow> bool" where
  "valid_draw n len idx = (length idx = n \<and> distinct idx \<and> list_all (\<lambda>i. i < len) idx)"

definition sample_n :: "nat \<Rightarrow> nat list \<Rightarrow> 'v dataframe \<Rightarrow> exn + 'v dataframe" where
  "sample_n n idx df =
     (if length (rows df) < n then Inl ValueError
      else Inr (df\<lparr>rows := map (\<lambda>i. rows df ! i) idx\<rparr>))"

text \<open>\<^verbatim>\<open>.values\<close>: the rows as arrays, one value per column, in column order.\<close>

definition frame_values :: "'v dataframe \<Rightarrow> 'v list list" where
  "frame_values df = map (\<lambda>r. map r (columns df)) (rows df)"

text \<open>\<^verbatim>\<open>str(n)\<close> for a natural number: its decimal digits.\<close>

definition digit_char :: "nat \<Rightarrow> char" where
  "digit_char d = ''0123456789'' ! d"

fun str_nat :: "nat \<Rightarrow> string" where
  "str_nat n = (if n < 10 then [digit_char n] else str_nat (n div 10) @ [digit_char (n mod 10)])"

declare str_nat.simps [simp del]

text \<open>\<^verbatim>\<open>os.path.join(a, b)\<close> (POSIX).\<close>

definition path_join :: "string \<Rightarrow> string \<Rightarrow> string" where
  "path_join a b =
     (if take 1 b = ''/'' then b
      else if a = [] \<or> last a = CHR ''/'' then a @ b
      else a @ ''/'' @ b)"

text \<open>\<^verbatim>\<open>arr.tofile(path, sep=",")\<close> writes the values as text, separated by \<open>sep\<close>.\<close>

fun join_sep :: "string \<Rightarrow> string list \<Rightarrow> string" where
  "join_sep sep [] = []"
| "join_sep sep [x] = x"
| "join_sep sep (x # y # ys) = x @ sep @ join_sep sep (y # ys)"

text \<open>The local file system: the text stored under each path.\<close>

type_synonym fs = "string \<rightharpoonup> string"

definition batch_folder :: string where
  "batch_folder = ''./batch-data''"

definition batch_file :: "nat \<Rightarrow> string" where
  "batch_file i = path_join batch_folder (str_nat (i + 1) @ ''.csv'')"

text \<open>
  The loop \<^verbatim>\<open>for i in range(100)\<close>, over the list of the values of \<open>i\<close> still to come.
  \<^verbatim>\<open>sample[i]\<close> raises \<open>IndexError\<close> beyond the end of the sample.
\<close>

fun save_files :: "('v \<Rightarrow> string) \<Rightarrow> 'v list list \<Rightarrow> fs \<Rightarrow> nat list \<Rightarrow> exn + fs" where
  "save_files fmt smp files [] = Inr files"
| "save_files fmt smp files (i # is) =
     (if i < length smp
      then save_files fmt smp (files(batch_file i \<mapsto> join_sep '','' (map fmt (smp ! i)))) is
      else Inl IndexError)"

text \<open>
  The cell from \<^verbatim>\<open>pd.read_csv('data/diabetes2.csv')\<close> (whose result is \<open>diabetes\<close>) to the
  end of the loop. The file system is a flat map of paths, so
  \<^verbatim>\<open>os.makedirs(batch_folder, exist_ok=True)\<close>, which changes no file, does not show; nor do
  the lines printed.
\<close>

definition generate_batch_data ::
  "('v \<Rightarrow> string) \<Rightarrow> nat list \<Rightarrow> 'v dataframe \<Rightarrow> fs \<Rightarrow> exn + fs" where
  "generate_batch_data fmt idx diabetes files =
     (case select_columns feature_columns diabetes of
        Inl e \<Rightarrow> Inl e
      | Inr features \<Rightarrow>
          (case sample_n 100 idx features of
             Inl e \<Rightarrow> Inl e
           | Inr smp \<Rightarrow> save_files fmt (frame_values smp) files [0..<100]))"

text \<open>
  \<^verbatim>\<open>default_ds.upload(src_dir="batch-data", target_path="batch-data", overwrite=True)\<close>
  sends every file below the folder: the uploaded text under each name relative to it.
\<close>

definition upload :: "fs \<Rightarrow> fs" where
  "upload files = (\<lambda>name. files (batch_folder @ ''/'' @ name))"

section \<open>The notebook: registering the dataset and finding the cluster\<close>

text \<open>
  What a cell leaves behind: the variable it assigns (\<open>None\<close> when it is unbound), the lines
  it prints itself, and the exception that leaves the cell, if any.
\<close>

record 'a cell_result =
  var :: "'a option"
  out :: "printed list"
  raised :: "exn option"

text \<open>
  The handler \<^verbatim>\<open>except Exception as ex: print(ex)\<close>, with the variable as it stands when the
  exception is raised.
\<close>

definition except_Exception :: "exn \<Rightarrow> 'a option \<Rightarrow> 'a cell_result" where
  "except_Exception e v =
     (if is_Exception e then \<lparr>var = v, out = [ExnText e], raised = None\<rparr>
      else \<lparr>var = v, out = [], raised = Some e\<rparr>)"

text \<open>
  The end of the data cell. \<open>unregistered\<close> is the result of \<^verbatim>\<open>Dataset.File.from_files\<close>,
  \<open>register\<close> the outcome of \<^verbatim>\<open>batch_data_set.register(...)\<close>.
\<close>

definition register_dataset :: "'d \<Rightarrow> (exn + 'd) \<Rightarrow> 'd cell_result" where
  "register_dataset unregistered register =
     (case register of
        Inr registered \<Rightarrow> \<lparr>var = Some registered, out = [Text ''Done!''], raised = None\<rparr>
      | Inl e \<Rightarrow>
          (let r = except_Exception e (Some unregistered) in
           case raised r of
             None \<Rightarrow> r\<lparr>out := out r @ [Text ''Done!'']\<rparr>
           | Some _ \<Rightarrow> r))"

text \<open>The outcomes of the SDK calls of the compute cell.\<close>

record ('c, 'g) compute_sdk =
  ComputeTarget :: "exn + 'c"
  provisioning_configuration :: "exn + 'g"
  ComputeTarget_create :: "'g \<Rightarrow> exn + 'c"
  wait_for_completion :: "'c \<Rightarrow> exn + unit"

text \<open>
  The compute cell; \<open>prev\<close> is \<open>inference_cluster\<close> before the cell runs. The lines that
  \<^verbatim>\<open>wait_for_completion(show_output=True)\<close> prints are the SDK's and are left out.
\<close>

definition create_compute :: "('c, 'g) compute_sdk \<Rightarrow> 'c option \<Rightarrow> 'c cell_result" where
  "create_compute sdk prev =
     (case ComputeTarget sdk of
        Inr found \<Rightarrow>
          \<lparr>var = Some found, out = [Text ''Found existing cluster, use it.''], raised = None\<rparr>
      | Inl e \<Rightarrow>
          (if e = ComputeTargetException then
             (case provisioning_configuration sdk of
                Inl e1 \<Rightarrow> except_Exception e1 prev
              | Inr compute_config \<Rightarrow>
                  (case ComputeTarget_create sdk compute_config of
                     Inl e2 \<Rightarrow> except_Exception e2 prev
                   | Inr created \<Rightarrow>
                       (case wait_for_completion sdk created of
                          Inl e3 \<Rightarrow> except_Exception e3 (Some created)
                        | Inr _ \<Rightarrow> \<lparr>var = Some created, out = [], raised = None\<rparr>)))
           else \<lparr>var = prev, out = [], raised = Some e\<rparr>))"

section \<open>The notebook: reading the results file\<close>

text \<open>The fields of a line: the texts between the delimiters.\<close>

fun split_on :: "char \<Rightarrow> string \<Rightarrow> string list" where
  "split_on d [] = [[]]"
| "split_on d (c # cs) =
     (if c = d then [] # split_on d cs
      else (case split_on d cs of
              [] \<Rightarrow> [[c]]
            | x # xs \<Rightarrow> (c # x) # xs))"

text \<open>
  With \<^verbatim>\<open>skip_blank_lines\<close> at its default, the reader skips a line that is empty or
  holds only blanks and tabs (none of them the delimiter).
\<close>

definition blank_line :: "char \<Rightarrow> string \<Rightarrow> bool" where
  "blank_line d l = list_all (\<lambda>c. (c = CHR '' '' \<or> c = CHR 0x09) \<and> c \<noteq> d) l"

text \<open>
  The reader's conversion of a field to a 64-bit integer: blanks, an optional sign, at
  least one digit, blanks, and nothing else; the value must fit into 64 bits.
\<close>

definition is_space :: "char \<Rightarrow> bool" where
  "is_space c = (c \<in> set [CHR '' '', CHR 0x09, CHR 0x0A, CHR 0x0B, CHR 0x0C, CHR 0x0D])"

definition is_digit :: "char \<Rightarrow> bool" where
  "is_digit c = (c \<in> set ''0123456789'')"

definition digit_value :: "char \<Rightarrow> nat" where
  "digit_value c = of_char c - of_char CHR ''0''"

definition digits_value :: "string \<Rightarrow> nat" where
  "digits_value ds = foldl (\<lambda>a c. 10 * a + digit_value c) 0 ds"

definition parse_int64 :: "string \<Rightarrow> int option" where
  "parse_int64 s =
     (let s1 = dropWhile is_space s;
          neg = (take 1 s1 = ''-'');
          s2 = (if take 1 s1 = ''-'' \<or> take 1 s1 = ''+'' then drop 1 s1 else s1);
          ds = takeWhile is_digit s2;
          rest = dropWhile is_space (dropWhile is_digit s2);
          v = (if neg then - int (digits_value ds) else int (digits_value ds))
      in if ds = [] \<or> rest \<noteq> [] then None
         else if - (2 ^ 63) \<le> v \<and> v < 2 ^ 63 then Some v
         else None)"

fun parse_all :: "string list \<Rightarrow> int list option" where
  "parse_all [] = Some []"
| "parse_all (x # xs) =
     (case parse_int64 x of
        None \<Rightarrow> None
      | Some n \<Rightarrow> (case parse_all xs of None \<Rightarrow> None | Some ns \<Rightarrow> Some (n # ns)))"

text \<open>
  A column of the table read. The reader tries 64-bit integers first: a column all of
  whose fields convert is a column of these integers. A column none of whose fields is a
  number, a truth value or a marker of a missing value keeps the texts of its fields,
  blanks included. The syntax of floating-point numbers and the tables of truth values
  and missing-value markers are the library's: \<open>special\<close>, a parameter, says whether a
  field is one of these. Every other column (some field is \<open>special\<close>, and not all fields
  are integers) is left open: \<open>OtherColumn\<close> stands for a column whose type and contents
  the model does not give.
\<close>

datatype column = Int64 "int list" | TextColumn "string list" | OtherColumn

definition convert_column :: "(string \<Rightarrow> bool) \<Rightarrow> string list \<Rightarrow> column" where
  "convert_column special xs =
     (case parse_all xs of
        Some ns \<Rightarrow> Int64 ns
      | None \<Rightarrow> if list_ex special xs then OtherColumn else TextColumn xs)"

text \<open>
  \<^verbatim>\<open>pd.read_csv(result_file, delimiter=":", header=None)\<close>, on the lines of the file; it
  covers lines without quote characters or line breaks inside. Blank lines are skipped; a
  file without any other line is an \<open>EmptyDataError\<close>. The first line fixes the number of
  columns; a later line with more fields is a \<open>ParserError\<close>, one with fewer fields is
  filled up with empty fields. Then each column is converted.
\<close>

definition read_csv :: "(string \<Rightarrow> bool) \<Rightarrow> char \<Rightarrow> string list \<Rightarrow> exn + column list" where
  "read_csv special d lines =
     (case map (split_on d) (filter (\<lambda>l. \<not> blank_line d l) lines) of
        [] \<Rightarrow> Inl EmptyDataError
      | r # rs \<Rightarrow>
          (if list_ex (\<lambda>x. length r < length x) rs then Inl ParserError
           else
             (let tbl = map (\<lambda>x. x @ replicate (length r - length x) []) (r # rs)
              in Inr (map (\<lambda>j. convert_column special (map (\<lambda>x. x ! j) tbl))
                        [0..<length r]))))"

text \<open>\<^verbatim>\<open>df.columns = names\<close>: a \<open>ValueError\<close> unless there is one name per column.\<close>

definition set_columns :: "string list \<Rightarrow> column list \<Rightarrow> exn + (string \<times> column) list" where
  "set_columns names cols =
     (if length cols = length names then Inr (zip names cols) else Inl ValueError)"

definition read_results :: "(string \<Rightarrow> bool) \<Rightarrow> string list \<Rightarrow> exn + (string \<times> column) list" where
  "read_results special lines =
     (case read_csv special CHR '':'' lines of
        Inl e \<Rightarrow> Inl e
      | Inr cols \<Rightarrow> set_columns [''File'', ''Prediction''] cols)"

text \<open>A text without delimiter, quote character or line break.\<close>

definition field_safe :: "string \<Rightarrow> bool" where
  "field_safe s =
     list_all (\<lambda>c. c \<noteq> CHR '':'' \<and> c \<noteq> CHR 0x22 \<and> c \<noteq> CHR 0x0A \<and> c \<noteq> CHR 0x0D) s"

text \<open>\<^verbatim>\<open>str(n)\<close> for an integer, as \<^verbatim>\<open>"{}".format\<close> writes an integer prediction.\<close>

definition str_int :: "int \<Rightarrow> string" where
  "str_int n = (if n < 0 then ''-'' @ str_nat (nat (- n)) else str_nat (nat n))"

section \<open>The notebook: calling the REST endpoint\<close>

text \<open>
  The platform behind the last cells: the outcome of the HTTP POST (an exception, or a
  response whose \<^verbatim>\<open>json()\<close> raises or gives a dictionary), the workspace's experiments by
  name, and the outcome of waiting for a run of an experiment.
\<close>

record ('h, 'e) platform =
  post :: "string \<Rightarrow> 'h \<Rightarrow> (string \<times> string) list \<Rightarrow> exn + (exn + (string \<rightharpoonup> string))"
  experiments :: "string \<rightharpoonup> 'e"
  wait_run :: "'e \<Rightarrow> string \<Rightarrow> exn + string"

datatype ('h, 'e) rest_call =
    HttpPost string 'h "(string \<times> string) list"
  | PipelineRun 'e string
  | WaitForCompletion 'e string

text \<open>
  The two cells from \<^verbatim>\<open>requests.post\<close> to \<^verbatim>\<open>published_pipeline_run.wait_for_completion\<close>:
  the final status of the run (or the exception raised) and the calls made, in order.
\<close>

definition call_rest_endpoint ::
  "('h, 'e) platform \<Rightarrow> string \<Rightarrow> 'h \<Rightarrow> (exn + string) \<times> ('h, 'e) rest_call list" where
  "call_rest_endpoint P rest_endpoint auth_header =
     (let payload = [(''ExperimentName'', ''mslearn-diabetes-batch'')];
          t1 = [HttpPost rest_endpoint auth_header payload] in
      case post P rest_endpoint auth_header payload of
        Inl e \<Rightarrow> (Inl e, t1)
      | Inr response \<Rightarrow>
          (case response of
             Inl e \<Rightarrow> (Inl e, t1)
           | Inr body \<Rightarrow>
               (case body ''Id'' of
                  None \<Rightarrow> (Inl KeyError, t1)
                | Some run_id \<Rightarrow>
                    (case experiments P ''mslearn-diabetes-batch'' of
                       None \<Rightarrow> (Inl KeyError, t1)
                     | Some experiment \<Rightarrow>
                         (let t2 = t1 @ [PipelineRun experiment run_id,
                                         WaitForCompletion experiment run_id] in
                          case wait_run P experiment run_id of
                            Inl e \<Rightarrow> (Inl e, t2)
                          | Inr status \<Rightarrow> (Inr status, t2))))))"

section \<open>The notebook: the order of its cells\<close>

text \<open>The stages that the notebook goes through.\<close>

datatype stage =
    Connect | Train | Register | UploadData | Provision | DefineStep | RunPipeline
  | Publish | CallRest | Poll | DownloadResults

fun stage_rank :: "stage \<Rightarrow> nat" where
  "stage_rank Connect = 0"
| "stage_rank Train = 1"
| "stage_rank Register = 2"
| "stage_rank UploadData = 3"
| "stage_rank Provision = 4"
| "stage_rank DefineStep = 5"
| "stage_rank RunPipeline = 6"
| "stage_rank Publish = 7"
| "stage_rank CallRest = 8"
| "stage_rank Poll = 9"
| "stage_rank DownloadResults = 10"

text \<open>
  The calls into the platform's SDK (and the HTTP call) that the code cells make, under the
  names the notebook uses.
\<close>

datatype sdk_call =
    Workspace_from_config
  | Experiment_train
  | start_logging
  | run_log
  | run_upload_file
  | run_complete
  | run_get_metrics
  | run_register_model
  | set_default_datastore
  | get_default_datastore
  | ws_datastores
  | datastore_upload
  | Dataset_File_from_files
  | dataset_register
  | ComputeTarget_lookup
  | AmlCompute_provisioning_configuration
  | ComputeTarget_create_call
  | cluster_wait_for_completion
  | Environment_from_conda_specification
  | OutputFileDatasetConfig
  | ParallelRunConfig
  | as_named_input
  | ParallelRunStep
  | Pipeline
  | Experiment_batch
  | submit
  | pipeline_run_wait_for_completion
  | get_children
  | get_output_data
  | download
  | publish_pipeline
  | published_pipeline_endpoint
  | InteractiveLoginAuthentication
  | get_authentication_header
  | requests_post
  | response_json
  | ws_experiments
  | PipelineRun_new
  | published_run_wait_for_completion

text \<open>
  The calls of each code cell, in the order in which the cell makes them when none of them
  raises; cells are numbered as in the notebook file, from 0, markdown cells included. Cell
  8 depends on whether the cluster is found. The cells that make no such call (10, 12 and
  14, which write local files) have none.
\<close>

fun cell_calls :: "bool \<Rightarrow> nat \<Rightarrow> sdk_call list" where
  "cell_calls found n =
     (if n = 2 then [Workspace_from_config]
      else if n = 4 then
        [Experiment_train, start_logging, run_log, run_log, run_upload_file, run_complete,
         run_get_metrics, run_get_metrics, run_register_model]
      else if n = 6 then
        [set_default_datastore, get_default_datastore, ws_datastores, get_default_datastore,
         datastore_upload, Dataset_File_from_files, dataset_register]
      else if n = 8 then
        (if found then [ComputeTarget_lookup]
         else [ComputeTarget_lookup, AmlCompute_provisioning_configuration,
               ComputeTarget_create_call, cluster_wait_for_completion])
      else if n = 16 then [Environment_from_conda_specification]
      else if n = 18 then [OutputFileDatasetConfig, ParallelRunConfig, as_named_input, ParallelRunStep]
      else if n = 20 then [Pipeline, Experiment_batch, submit, pipeline_run_wait_for_completion]
      else if n = 22 then [get_children, get_output_data, download]
      else if n = 24 then [publish_pipeline]
      else if n = 26 then [published_pipeline_endpoint]
      else if n = 28 then [InteractiveLoginAuthentication, get_authentication_header]
      else if n = 30 then [published_pipeline_endpoint, requests_post, response_json]
      else if n = 32 then [ws_experiments, PipelineRun_new, published_run_wait_for_completion]
      else if n = 34 then [get_children, get_output_data, download]
      else [])"

text \<open>The whole notebook, run from the first cell to the last.\<close>

definition notebook_calls :: "bool \<Rightarrow> sdk_call list" where
  "notebook_calls found = concat (map (cell_calls found) [0..<36])"

text \<open>The stage that a call belongs to.\<close>

fun stage_of :: "sdk_call \<Rightarrow> stage" where
  "stage_of Workspace_from_config = Connect"
| "stage_of Experiment_train = Train"
| "stage_of start_logging = Train"
| "stage_of run_log = Train"
| "stage_of run_upload_file = Train"
| "stage_of run_complete = Train"
| "stage_of run_get_metrics = Register"
| "stage_of run_register_model = Register"
| "stage_of set_default_datastore = UploadData"
| "stage_of get_default_datastore = UploadData"
| "stage_of ws_datastores = UploadData"
| "stage_of datastore_upload = UploadData"
| "stage_of Dataset_File_from_files = UploadData"
| "stage_of dataset_register = UploadData"
| "stage_of ComputeTarget_lookup = Provision"
| "stage_of AmlCompute_provisioning_configuration = Provision"
| "stage_of ComputeTarget_create_call = Provision"
| "stage_of cluster_wait_for_completion = Provision"
| "stage_of Environment_from_conda_specification = DefineStep"
| "stage_of OutputFileDatasetConfig = DefineStep"
| "stage_of ParallelRunConfig = DefineStep"
| "stage_of as_named_input = DefineStep"
| "stage_of ParallelRunStep = DefineStep"
| "stage_of Pipeline = RunPipeline"
| "stage_of Experiment_batch = RunPipeline"
| "stage_of submit = RunPipeline"
| "stage_of pipeline_run_wait_for_completion = RunPipeline"
| "stage_of get_children = DownloadResults"
| "stage_of get_output_data = DownloadResults"
| "stage_of download = DownloadResults"
| "stage_of publish_pipeline = Publish"
| "stage_of published_pipeline_endpoint = CallRest"
| "stage_of InteractiveLoginAuthentication = CallRest"
| "stage_of get_authentication_header = CallRest"
| "stage_of requests_post = CallRest"
| "stage_of response_json = CallRest"
| "stage_of ws_experiments = Poll"
| "stage_of PipelineRun_new = Poll"
| "stage_of published_run_wait_for_completion = Poll"

definition notebook_stages :: "bool \<Rightarrow> stage list" where
  "notebook_stages found = map stage_of (notebook_calls found)"

section \<open>A concrete setting\<close>

text \<open>
  A setting to run the definitions in: values and predictions are integers, and a model is
  the number of features it was fitted on. As a scikit-learn estimator does, \<open>predict\<close>
  raises \<open>ValueError\<close> when a row has another number of values; otherwise it gives one
  prediction per row. The files are those of a small folder.
\<close>

definition example_files :: "string \<Rightarrow> exn + int ndarray" where
  "example_files f =
     (if f = ''batch-data/1.csv'' then Inr (Vec [0, 171, 80, 34, 23, 43, 1, 21])
      else if f = ''other/1.csv'' then Inr (Vec [8, 92, 93, 47, 36, 21, 0, 26])
      else if f = ''batch-data/a:b.csv'' then Inr (Vec [7, 115, 47, 52, 35, 41, 1, 23])
      else if f = ''batch-data/short.csv'' then Inr (Vec [1, 2, 3])
      else if f = ''batch-data/two-lines.csv'' then
        Inr (Mat [[0, 171, 80, 34], [23, 43, 1, 21]])
      else Inl OSError)"

definition example_predict :: "nat \<Rightarrow> int list list \<Rightarrow> exn + int list" where
  "example_predict m X =
     (if list_ex (\<lambda>row. length row \<noteq> m) X then Inl ValueError
      else Inr (map (\<lambda>row. if 100 < sum_list row then 1 else 0) X))"

definition example_str :: "int \<Rightarrow> string" where
  "example_str p = (if p < 0 then ''-'' @ str_nat (nat (- p)) else str_nat (nat p))"

definition example_libs :: "(int, nat, int) libs" where
  "example_libs =
     \<lparr>genfromtxt = example_files,
      get_model_path = (\<lambda>name. if name = ''diabetes_model''
                                then Inr ''azureml-models/diabetes_model/1/diabetes_model.pkl''
                                else Inl UserErrorException),
      joblib_load = (\<lambda>path. if path = ''azureml-models/diabetes_model/1/diabetes_model.pkl''
                             then Inr 8 else Inl OSError),
      predict = example_predict,
      str_pred = example_str\<rparr>"

definition fresh :: "(int, nat) script" where
  "fresh = \<lparr>model = None, trace = []\<rparr>"

definition loaded :: "(int, nat) script" where
  "loaded = \<lparr>model = Some 8, trace = []\<rparr>"

text \<open>
  A data frame of 120 patients whose label column holds \<open>label\<close> in every row, and a
  draw of 100 of its rows.
\<close>

definition example_frame :: "int \<Rightarrow> int dataframe" where
  "example_frame label =
     \<lparr>columns = ''PatientID'' # feature_columns @ [''Diabetic''],
      rows = map (\<lambda>i c. if c = ''Diabetic'' then label
                         else if c = ''Age'' then 21 + int i else int i) [0..<120]\<rparr>"

definition example_draw :: "nat list" where
  "example_draw = map (\<lambda>i. 119 - i) [0..<100]"

text \<open>
  The compute cell's SDK when the cluster exists, and when it does not and cannot be
  created either.
\<close>

definition existing_cluster :: "(string, string) compute_sdk" where
  "existing_cluster =
     \<lparr>ComputeTarget = Inr ''CT-915-02-JMDL'',
      provisioning_configuration = Inr ''STANDARD_DS11_V2'',
      ComputeTarget_create = (\<lambda>g. Inr ''CT-915-02-JMDL''),
      wait_for_completion = (\<lambda>c. Inr ())\<rparr>"

definition missing_cluster :: "(string, string) compute_sdk" where
  "missing_cluster =
     \<lparr>ComputeTarget = Inl ComputeTargetException,
      provisioning_configuration = Inr ''STANDARD_DS11_V2'',
      ComputeTarget_create = (\<lambda>g. Inl UserErrorException),
      wait_for_completion = (\<lambda>c. Inr ())\<rparr>"

text \<open>
  A platform that answers the POST of the experiment name with a run identifier.
\<close>

definition example_platform :: "(string, nat) platform" where
  "example_platform =
     \<lparr>post = (\<lambda>url hdr payload.
         if url = ''https://example.invalid/pipelines/1'' \<and> hdr = ''Bearer token'' \<and>
            map_of payload ''ExperimentName'' = Some ''mslearn-diabetes-batch''
         then Inr (Inr [''Id'' \<mapsto> ''run-42''])
         else Inr (Inr [''error'' \<mapsto> ''unauthorized''])),
      experiments = [''mslearn-diabetes-batch'' \<mapsto> 7],
      wait_run = (\<lambda>e r. Inr ''Finished'')\<rparr>"

text \<open>
  An example of the library's table of the fields that are numbers, truth values or
  markers of missing values: the empty field, some markers and truth values, and the
  texts made of digits, signs, points, exponent letters and blanks only.
\<close>

definition example_special :: "string \<Rightarrow> bool" where
  "example_special x =
     (x \<in> set ['''', ''NA'', ''N/A'', ''NaN'', ''nan'', ''NULL'', ''null'', ''True'', ''False'',
                ''true'', ''false'', ''inf'', ''-inf''] \<or>
      list_all (\<lambda>c. c \<in> set ''0123456789+-.eE '') x)"

section \<open>Properties of the scoring script\<close>

subsection \<open>Evaluating the decimal text of a small number\<close>

lemma str_nat_small: "n < 10 \<Longrightarrow> str_nat n = [digit_char n]"
  by (simp add: str_nat.simps)

subsection \<open>The empty mini-batch\<close>

text \<open>
  C8. For the empty mini-batch \<open>run\<close> returns the empty list: the script's state is
  unchanged, so no file was read and no prediction was made, and no exception is raised.
\<close>

theorem run_empty: "run L s [] = (Inr [], s)"
  by (simp add: run_def)

subsection \<open>One line per file, in order\<close>

lemma run_body_ok:
  assumes "model s = Some m" and "genfromtxt L f = Inr a"
    and "predict L m [reshape_row a] = Inr (p # rest)"
  shows "run_body L s acc f =
    (Inr (acc @ [result_line f (str_pred L p)]),
     emit (Predict m [reshape_row a]) (emit (ReadFile f) s))"
  using assms by (simp add: run_body_def emit_def Let_def)

lemma model_emit [simp]: "model (emit e s) = model s"
  by (simp add: emit_def)

lemma run_loop_ok:
  assumes "list_all2 (\<lambda>f p. \<exists>a rest. genfromtxt L f = Inr a \<and>
              predict L m [reshape_row a] = Inr (p # rest)) fs ps"
    and "model s = Some m"
  shows "fst (run_loop L s acc fs) =
    Inr (acc @ map2 (\<lambda>f p. result_line f (str_pred L p)) fs ps)"
  using assms
proof (induction fs ps arbitrary: s acc rule: list_all2_induct)
  case Nil
  then show ?case by simp
next
  case (Cons f fs p ps)
  from Cons.hyps(1) obtain a rest where a: "genfromtxt L f = Inr a"
    and p: "predict L m [reshape_row a] = Inr (p # rest)" by blast
  let ?s' = "emit (Predict m [reshape_row a]) (emit (ReadFile f) s)"
  have body: "run_body L s acc f = (Inr (acc @ [result_line f (str_pred L p)]), ?s')"
    using run_body_ok [OF Cons.prems a p] .
  have "model ?s' = Some m" using Cons.prems by simp
  from Cons.IH [OF this] show ?case by (simp add: body)
qed

text \<open>
  C1, as the code has it. \<open>run\<close> has no handler of its own: a file that cannot be read, a
  prediction that raises and an empty prediction array all end the call with the exception
  (the step is configured with an error threshold for such items). When the global \<open>model\<close>
  is bound to \<open>m\<close>, every file of the mini-batch is read, and \<open>predict\<close> gives a non-empty
  array for the values of each file reshaped into one row, \<open>run\<close> returns a list as long as
  the mini-batch whose \<open>i\<close>-th element is the basename of the \<open>i\<close>-th path, then \<open>': '\<close>,
  then the text of the first prediction for that file. The array read may have any shape:
  \<open>reshape_row\<close> makes one row of it, so there is one line per file.
\<close>

theorem run_returns_lines:
  assumes "model s = Some m"
    and "length ps = length mini_batch"
    and "\<forall>i<length mini_batch. \<exists>a rest. genfromtxt L (mini_batch ! i) = Inr a \<and>
           predict L m [reshape_row a] = Inr (ps ! i # rest)"
  shows "\<exists>r. fst (run L s mini_batch) = Inr r \<and> length r = length mini_batch \<and>
           (\<forall>i<length mini_batch.
              r ! i = basename (mini_batch ! i) @ '': '' @ str_pred L (ps ! i))"
proof -
  have "list_all2 (\<lambda>f p. \<exists>a rest. genfromtxt L f = Inr a \<and>
              predict L m [reshape_row a] = Inr (p # rest)) mini_batch ps"
    using assms(2,3) by (simp add: list_all2_conv_all_nth)
  from run_loop_ok [OF this assms(1), of "[]"]
  have "fst (run L s mini_batch) =
      Inr (map2 (\<lambda>f p. result_line f (str_pred L p)) mini_batch ps)"
    by (simp add: run_def)
  then show ?thesis using assms(2) by (simp add: result_line_def)
qed

text \<open>
  The theorem at a mini-batch of two files, the second holding its eight values on two lines.
\<close>

theorem run_returns_lines_witness:
  "model loaded = Some 8 \<and>
   fst (run example_libs loaded [''batch-data/1.csv'', ''batch-data/two-lines.csv'']) =
     Inr [''1.csv: 1'', ''two-lines.csv: 1'']"
proof -
  let ?mb = "[''batch-data/1.csv'', ''batch-data/two-lines.csv'']"
  have m: "model loaded = Some 8" by (simp add: loaded_def)
  have l: "length [1, 1 :: int] = length ?mb" by simp
  have h: "\<forall>i<length ?mb. \<exists>a rest. genfromtxt example_libs (?mb ! i) = Inr a \<and>
      predict example_libs 8 [reshape_row a] = Inr ([1, 1] ! i # rest)"
    by (simp add: less_Suc_eq example_libs_def example_files_def example_predict_def)
  from run_returns_lines [OF m l h] obtain r where
    r: "fst (run example_libs loaded ?mb) = Inr r" and len: "length r = length ?mb"
    and nth: "\<forall>i<length ?mb. r ! i = basename (?mb ! i) @ '': '' @ str_pred example_libs ([1, 1] ! i)"
    by blast
  from nth have "r ! 0 = ''1.csv: 1''" and "r ! 1 = ''two-lines.csv: 1''"
    by (simp_all add: basename_def example_libs_def example_str_def str_nat_small digit_char_def)
  with len have "r = [''1.csv: 1'', ''two-lines.csv: 1'']"
    by (cases r; cases "tl r") auto
  with r m show ?thesis by simp
qed

text \<open>
  C1 as stated fails: with a model fitted on eight features, a file of three values makes
  \<open>predict\<close> raise, and \<open>run\<close> returns no list.
\<close>

theorem run_short_file_counterexample:
  "fst (run example_libs loaded [''batch-data/short.csv'']) = Inl ValueError"
  by (simp add: run_def run_body_def example_libs_def loaded_def example_files_def
    example_predict_def emit_def)

subsection \<open>Labels are basenames\<close>

text \<open>
  C9. Two paths with the same basename whose files give predictions with the same text
  get the same result line, which starts with that basename: the directories of the paths
  do not show in the result.
\<close>

theorem run_same_basename:
  assumes "model s = Some m"
    and "genfromtxt L f = Inr a" and "genfromtxt L g = Inr b"
    and "predict L m [reshape_row a] = Inr (p # ps)"
    and "predict L m [reshape_row b] = Inr (q # qs)"
    and "str_pred L p = str_pred L q"
    and "basename f = basename g"
  shows "fst (run L s [f]) = fst (run L s [g]) \<and>
         fst (run L s [f]) = Inr [basename f @ '': '' @ str_pred L p]"
  using assms by (simp add: run_def run_body_ok result_line_def)

text \<open>
  The theorem at two files named \<open>1.csv\<close> in different folders.
\<close>

theorem run_same_basename_witness:
  "basename ''batch-data/1.csv'' = basename ''other/1.csv'' \<and>
   fst (run example_libs loaded [''batch-data/1.csv'']) = Inr [''1.csv: 1''] \<and>
   fst (run example_libs loaded [''other/1.csv'']) = Inr [''1.csv: 1'']"
proof -
  have m: "model loaded = Some 8" by (simp add: loaded_def)
  have f: "genfromtxt example_libs ''batch-data/1.csv'' = Inr (Vec [0, 171, 80, 34, 23, 43, 1, 21])"
    by (simp add: example_libs_def example_files_def)
  have g: "genfromtxt example_libs ''other/1.csv'' = Inr (Vec [8, 92, 93, 47, 36, 21, 0, 26])"
    by (simp add: example_libs_def example_files_def)
  have p: "predict example_libs 8 [reshape_row (Vec [0, 171, 80, 34, 23, 43, 1, 21])] = Inr [1]"
    by (simp add: example_libs_def example_predict_def)
  have q: "predict example_libs 8 [reshape_row (Vec [8, 92, 93, 47, 36, 21, 0, 26])] = Inr [1]"
    by (simp add: example_libs_def example_predict_def)
  have b: "basename ''batch-data/1.csv'' = basename ''other/1.csv''"
    by (simp add: basename_def)
  have t: "basename ''batch-data/1.csv'' @ '': '' @ str_pred example_libs 1 = ''1.csv: 1''"
    by (simp add: basename_def example_libs_def example_str_def str_nat_small digit_char_def)
  note r = run_same_basename [OF m f g p q refl b]
  from r have e1: "fst (run example_libs loaded [''batch-data/1.csv'']) = Inr [''1.csv: 1'']"
    unfolding t by (rule conjunct2)
  from r have "fst (run example_libs loaded [''other/1.csv'']) =
      fst (run example_libs loaded [''batch-data/1.csv''])"
    by (rule conjunct1 [THEN sym])
  then have e2: "fst (run example_libs loaded [''other/1.csv'']) = Inr [''1.csv: 1'']"
    unfolding e1 .
  from b e1 e2 show ?thesis by blast
qed

subsection \<open>The model that run uses\<close>

lemma run_body_score:
  assumes "model s = Some m"
  shows "run_body L s acc f =
    (case fst (score_file_with_model L m f) of
       Inl e \<Rightarrow> Inl e
     | Inr line \<Rightarrow> Inr (acc @ [line]),
     s\<lparr>trace := trace s @ snd (score_file_with_model L m f)\<rparr>)"
  using assms
  by (simp add: run_body_def score_file_with_model_def emit_def Let_def
      split: sum.splits list.splits)

lemma run_loop_score:
  assumes "model s = Some m"
  shows "run_loop L s acc fs =
    (case fst (score_with_model L m fs) of
       Inl e \<Rightarrow> Inl e
     | Inr lines \<Rightarrow> Inr (acc @ lines),
     s\<lparr>trace := trace s @ snd (score_with_model L m fs)\<rparr>)"
  using assms
proof (induction fs arbitrary: s acc)
  case Nil
  then show ?case by simp
next
  case (Cons f fs)
  let ?s' = "s\<lparr>trace := trace s @ snd (score_file_with_model L m f)\<rparr>"
  have m': "model ?s' = Some m" using Cons.prems by simp
  show ?case
  proof (cases "fst (score_file_with_model L m f)")
    case (Inl e)
    then show ?thesis
      using run_body_score [OF Cons.prems, of L acc f]
      by (cases "score_file_with_model L m f") simp
  next
    case (Inr line)
    then show ?thesis
      using run_body_score [OF Cons.prems, of L acc f] Cons.IH [OF m', of "acc @ [line]"]
      by (cases "score_file_with_model L m f"; cases "score_with_model L m fs")
        (auto split: sum.splits)
  qed
qed

lemma run_score:
  assumes "model s = Some m"
  shows "run L s mini_batch =
    (fst (score_with_model L m mini_batch),
     s\<lparr>trace := trace s @ snd (score_with_model L m mini_batch)\<rparr>)"
  using run_loop_score [OF assms, of L "[]" mini_batch]
  by (simp add: run_def split: sum.splits)

lemma run_batches_score:
  assumes "model s = Some m"
  shows "run_batches L s batches =
    (map (\<lambda>mb. fst (score_with_model L m mb)) batches,
     s\<lparr>trace := trace s @ concat (map (\<lambda>mb. snd (score_with_model L m mb)) batches)\<rparr>)"
  using assms
proof (induction batches arbitrary: s)
  case Nil
  then show ?case by simp
next
  case (Cons mb batches)
  let ?s' = "s\<lparr>trace := trace s @ snd (score_with_model L m mb)\<rparr>"
  have "model ?s' = Some m" using Cons.prems by simp
  from Cons.IH [OF this] show ?case
    by (simp add: run_score [OF Cons.prems])
qed

lemma run_unbound:
  assumes "model s = None"
  shows "run L s (f # fs) =
    (case genfromtxt L f of Inl e \<Rightarrow> Inl e | Inr a \<Rightarrow> Inl NameError, emit (ReadFile f) s)"
  using assms
  by (simp add: run_def run_body_def Let_def emit_def split: sum.splits)

text \<open>
  C4. When \<open>init\<close> returns, it has asked the registry for the path of the model named
  \<open>diabetes_model\<close>, loaded the model \<open>m\<close> from that path and bound the global \<open>model\<close> to
  it; nothing else of the state changes, and the two calls are the only ones \<open>init\<close> makes.
  From then on every call of \<open>run\<close>, in any state in which the global holds \<open>m\<close>, gives
  exactly what scoring the mini-batch with \<open>m\<close> gives, makes exactly those calls (every
  prediction is one of \<open>m\<close>) and leaves the global as it is. So in a pipeline step, where
  \<open>init\<close> runs first and \<open>run\<close> then runs for each mini-batch, the model is loaded before
  any file of any mini-batch is read, and all the mini-batches are scored with \<open>m\<close>.
  Without \<open>init\<close>, with the global unbound, \<open>run\<close> makes no prediction: on a non-empty
  mini-batch it raises at the first file, with the exception of the read or, when the file
  is read, with \<open>NameError\<close>.
\<close>

theorem init_loads_model_for_run:
  assumes "init L s = (Inr (), s1)"
  shows "(\<exists>path m.
      get_model_path L ''diabetes_model'' = Inr path \<and> joblib_load L path = Inr m \<and>
      s1 = s\<lparr>model := Some m,
              trace := trace s @ [GetModelPath ''diabetes_model'', Load path]\<rparr> \<and>
      (\<forall>s' mini_batch. model s' = Some m \<longrightarrow>
         run L s' mini_batch =
           (fst (score_with_model L m mini_batch),
            s'\<lparr>trace := trace s' @ snd (score_with_model L m mini_batch)\<rparr>)) \<and>
      (\<forall>batches. pipeline_step L s batches =
         (Inr (map (\<lambda>mb. fst (score_with_model L m mb)) batches),
          s1\<lparr>trace := trace s1 @
                 concat (map (\<lambda>mb. snd (score_with_model L m mb)) batches)\<rparr>))) \<and>
    (\<forall>s0 f fs. model s0 = None \<longrightarrow>
       run L s0 (f # fs) =
         (case genfromtxt L f of Inl e \<Rightarrow> Inl e | Inr a \<Rightarrow> Inl NameError,
          emit (ReadFile f) s0))"
proof -
  from assms obtain path where path: "get_model_path L ''diabetes_model'' = Inr path"
    by (auto simp: init_def Let_def split: sum.splits)
  with assms obtain m where m: "joblib_load L path = Inr m"
    by (auto simp: init_def Let_def split: sum.splits)
  from assms path m have s1: "s1 = s\<lparr>model := Some m,
      trace := trace s @ [GetModelPath ''diabetes_model'', Load path]\<rparr>"
    by (auto simp: init_def Let_def emit_def)
  then have ms1: "model s1 = Some m" by simp
  have step: "pipeline_step L s batches =
         (Inr (map (\<lambda>mb. fst (score_with_model L m mb)) batches),
          s1\<lparr>trace := trace s1 @
                 concat (map (\<lambda>mb. snd (score_with_model L m mb)) batches)\<rparr>)" for batches
    by (simp add: pipeline_step_def assms run_batches_score [OF ms1])
  have A: "\<forall>s' mini_batch. model s' = Some m \<longrightarrow>
         run L s' mini_batch =
           (fst (score_with_model L m mini_batch),
            s'\<lparr>trace := trace s' @ snd (score_with_model L m mini_batch)\<rparr>)"
    using run_score by (intro allI impI)
  have B: "\<forall>batches. pipeline_step L s batches =
         (Inr (map (\<lambda>mb. fst (score_with_model L m mb)) batches),
          s1\<lparr>trace := trace s1 @
                 concat (map (\<lambda>mb. snd (score_with_model L m mb)) batches)\<rparr>)"
    using step by (intro allI)
  have C: "\<forall>s0 f fs. model s0 = None \<longrightarrow>
       run L s0 (f # fs) =
         (case genfromtxt L f of Inl e \<Rightarrow> Inl e | Inr a \<Rightarrow> Inl NameError,
          emit (ReadFile f) s0)"
    using run_unbound by (intro allI impI)
  show ?thesis
    by (intro conjI exI [of _ path] exI [of _ m]) (rule path m s1 A B C)+
qed

text \<open>
  The theorem at the example setting: a step of two mini-batches, the second with a file
  that the model cannot score.
\<close>

theorem init_loads_model_for_run_witness:
  "init example_libs fresh =
     (Inr (), \<lparr>model = Some 8,
               trace = [GetModelPath ''diabetes_model'',
                        Load ''azureml-models/diabetes_model/1/diabetes_model.pkl'']\<rparr>) \<and>
   pipeline_step example_libs fresh
       [[''batch-data/1.csv''], [''other/1.csv'', ''batch-data/short.csv'']] =
     (Inr [Inr [''1.csv: 1''], Inl ValueError],
      \<lparr>model = Some 8,
       trace = [GetModelPath ''diabetes_model'',
                Load ''azureml-models/diabetes_model/1/diabetes_model.pkl'',
                ReadFile ''batch-data/1.csv'', Predict 8 [[0, 171, 80, 34, 23, 43, 1, 21]],
                ReadFile ''other/1.csv'', Predict 8 [[8, 92, 93, 47, 36, 21, 0, 26]],
                ReadFile ''batch-data/short.csv'', Predict 8 [[1, 2, 3]]]\<rparr>)"
proof -
  let ?s1 = "\<lparr>model = Some (8::nat),
               trace = [GetModelPath ''diabetes_model'',
                        Load ''azureml-models/diabetes_model/1/diabetes_model.pkl'' :: (int, nat) event]\<rparr>"
  let ?batches = "[[''batch-data/1.csv''], [''other/1.csv'', ''batch-data/short.csv'']]"
  have i: "init example_libs fresh = (Inr (), ?s1)"
    by (simp add: init_def example_libs_def fresh_def emit_def)
  from init_loads_model_for_run [OF i] obtain path m
    where p: "get_model_path example_libs ''diabetes_model'' = Inr path"
      and m: "joblib_load example_libs path = Inr m"
      and step: "\<forall>batches. pipeline_step example_libs fresh batches =
         (Inr (map (\<lambda>mb. fst (score_with_model example_libs m mb)) batches),
          ?s1\<lparr>trace := trace ?s1 @
                 concat (map (\<lambda>mb. snd (score_with_model example_libs m mb)) batches)\<rparr>)"
    by blast
  from p have path: "path = ''azureml-models/diabetes_model/1/diabetes_model.pkl''"
    by (simp add: example_libs_def)
  from m have m8: "m = 8" by (simp add: example_libs_def path)
  have a: "score_with_model example_libs 8 [''batch-data/1.csv''] =
      (Inr [''1.csv: 1''],
       [ReadFile ''batch-data/1.csv'', Predict 8 [[0, 171, 80, 34, 23, 43, 1, 21]]])"
    by (simp add: score_file_with_model_def example_libs_def example_files_def
        example_predict_def result_line_def basename_def example_str_def str_nat_small
        digit_char_def)
  have b: "score_with_model example_libs 8 [''other/1.csv'', ''batch-data/short.csv''] =
      (Inl ValueError,
       [ReadFile ''other/1.csv'', Predict 8 [[8, 92, 93, 47, 36, 21, 0, 26]],
        ReadFile ''batch-data/short.csv'', Predict 8 [[1, 2, 3]]])"
    by (simp add: score_file_with_model_def example_libs_def example_files_def
        example_predict_def result_line_def basename_def example_str_def str_nat_small
        digit_char_def)
  from step have "pipeline_step example_libs fresh ?batches =
         (Inr (map (\<lambda>mb. fst (score_with_model example_libs m mb)) ?batches),
          ?s1\<lparr>trace := trace ?s1 @
                 concat (map (\<lambda>mb. snd (score_with_model example_libs m mb)) ?batches)\<rparr>)"
    by (rule spec)
  then have "pipeline_step example_libs fresh ?batches =
     (Inr [Inr [''1.csv: 1''], Inl ValueError],
      \<lparr>model = Some 8,
       trace = [GetModelPath ''diabetes_model'',
                Load ''azureml-models/diabetes_model/1/diabetes_model.pkl'',
                ReadFile ''batch-data/1.csv'', Predict 8 [[0, 171, 80, 34, 23, 43, 1, 21]],
                ReadFile ''other/1.csv'', Predict 8 [[8, 92, 93, 47, 36, 21, 0, 26]],
                ReadFile ''batch-data/short.csv'', Predict 8 [[1, 2, 3]]]\<rparr>)"
    unfolding m8 by (simp add: a b del: score_with_model.simps)
  with i show ?thesis by (rule conjI)
qed

section \<open>Properties of the batch-data generation\<close>

subsection \<open>Decimal texts and file names\<close>

lemma digit_char_in: "d < 10 \<Longrightarrow> digit_char d \<in> set ''0123456789''"
  unfolding digit_char_def by (intro nth_mem) simp

lemma digit_char_inj:
  assumes "a < 10" and "b < 10" and "digit_char a = digit_char b"
  shows "a = b"
proof -
  have "distinct ''0123456789''" by simp
  moreover have "a < length ''0123456789''" "b < length ''0123456789''" using assms by simp_all
  ultimately show ?thesis using assms(3) unfolding digit_char_def
    by (simp only: nth_eq_iff_index_eq)
qed

lemma str_nat_nonempty: "str_nat n \<noteq> []"
  by (subst str_nat.simps) simp

lemma str_nat_digits: "set (str_nat n) \<subseteq> set ''0123456789''"
proof (induction n rule: str_nat.induct)
  case (1 n)
  show ?case
  proof (cases "n < 10")
    case True
    then show ?thesis using digit_char_in [of n] by (subst str_nat.simps) simp
  next
    case False
    have "n mod 10 < 10" by simp
    from digit_char_in [OF this] "1.IH" [OF False] False show ?thesis
      by (subst str_nat.simps) simp
  qed
qed

lemma str_nat_inj: "str_nat m = str_nat n \<Longrightarrow> m = n"
proof (induction m arbitrary: n rule: str_nat.induct)
  case (1 m)
  show ?case
  proof (cases "m < 10")
    case m: True
    show ?thesis
    proof (cases "n < 10")
      case True
      with m "1.prems" show ?thesis
        by (simp add: str_nat_small digit_char_inj)
    next
      case False
      then have "str_nat n = str_nat (n div 10) @ [digit_char (n mod 10)]"
        by (subst str_nat.simps) simp
      then have "length (str_nat n) \<ge> 2"
        using str_nat_nonempty [of "n div 10"] by (cases "str_nat (n div 10)") auto
      moreover have "length (str_nat m) = 1" using m by (simp add: str_nat_small)
      ultimately show ?thesis using "1.prems" by simp
    qed
  next
    case m: False
    then have em: "str_nat m = str_nat (m div 10) @ [digit_char (m mod 10)]"
      by (subst str_nat.simps) simp
    show ?thesis
    proof (cases "n < 10")
      case True
      from em have "length (str_nat m) \<ge> 2"
        using str_nat_nonempty [of "m div 10"] by (cases "str_nat (m div 10)") auto
      moreover have "length (str_nat n) = 1" using True by (simp add: str_nat_small)
      ultimately show ?thesis using "1.prems" by simp
    next
      case False
      then have en: "str_nat n = str_nat (n div 10) @ [digit_char (n mod 10)]"
        by (subst str_nat.simps) simp
      from "1.prems" em en have pre: "str_nat (m div 10) = str_nat (n div 10)"
        and d: "digit_char (m mod 10) = digit_char (n mod 10)" by simp_all
      from "1.IH" [OF m pre] have "m div 10 = n div 10" .
      moreover from d have "m mod 10 = n mod 10" by (intro digit_char_inj) simp_all
      ultimately show ?thesis by (metis div_mult_mod_eq)
    qed
  qed
qed

lemma path_join_batch_folder:
  assumes "x = c # cs" and "c \<noteq> CHR ''/''"
  shows "path_join batch_folder (x @ y) = ''./batch-data/'' @ x @ y"
  using assms by (simp add: path_join_def batch_folder_def)

lemma batch_file_eq: "batch_file i = ''./batch-data/'' @ str_nat (i + 1) @ ''.csv''"
proof -
  obtain c cs where s: "str_nat (i + 1) = c # cs"
    using str_nat_nonempty [of "i + 1"] by (cases "str_nat (i + 1)") auto
  with str_nat_digits [of "i + 1"] have "c \<in> set ''0123456789''" by auto
  then have "c \<noteq> CHR ''/''" by auto
  from path_join_batch_folder [OF s this] show ?thesis
    unfolding batch_file_def .
qed

lemma batch_file_inj: "batch_file i = batch_file j \<Longrightarrow> i = j"
  using str_nat_inj [of "i + 1" "j + 1"] by (simp add: batch_file_eq)

lemma the_inv_batch_file: "the_inv batch_file (batch_file k) = k"
  by (rule the_inv_f_f) (auto simp: inj_on_def dest: batch_file_inj)

lemma batch_file_names:
  "batch_file ` {..<100} = (\<lambda>k. ''./batch-data/'' @ str_nat k @ ''.csv'') ` {1..100}"
proof -
  let ?name = "\<lambda>k. ''./batch-data/'' @ str_nat k @ ''.csv''"
  have S: "Suc ` {..<100} = {1..100}"
  proof (intro set_eqI iffI)
    fix x :: nat
    assume "x \<in> Suc ` {..<100}"
    then show "x \<in> {1..100}" by auto
  next
    fix x :: nat
    assume "x \<in> {1..100}"
    then have "x - 1 \<in> {..<100}" and "x = Suc (x - 1)" by auto
    then show "x \<in> Suc ` {..<100}" by (rule rev_image_eqI)
  qed
  have "batch_file ` {..<100} = ?name ` (Suc ` {..<100})"
    unfolding image_image by (rule image_cong) (simp_all add: batch_file_eq)
  then show ?thesis unfolding S .
qed

subsection \<open>The files written\<close>

lemma save_files_result:
  assumes "\<forall>i\<in>set is. i < length smp"
  shows "save_files fmt smp files is =
    Inr (\<lambda>p. if p \<in> batch_file ` set is
              then Some (join_sep '','' (map fmt (smp ! (the_inv batch_file p))))
              else files p)"
  using assms
proof (induction "is" arbitrary: files)
  case Nil
  then show ?case by simp
next
  case (Cons i "is")
  have inv: "the_inv batch_file (batch_file k) = k" for k
    by (rule the_inv_f_f) (auto simp: inj_on_def dest: batch_file_inj)
  from Cons.prems have i: "i < length smp" and rest: "\<forall>i\<in>set is. i < length smp" by simp_all
  show ?case
    using i by (auto simp: Cons.IH [OF rest] inv fun_eq_iff dest: batch_file_inj)
qed

lemma generate_batch_data_eq:
  assumes cols: "list_all (\<lambda>c. c \<in> set (columns diabetes)) feature_columns"
    and n: "100 \<le> length (rows diabetes)"
    and len: "length idx = 100"
  shows "generate_batch_data fmt idx diabetes files =
    Inr (\<lambda>p. if p \<in> batch_file ` {..<100}
              then Some (join_sep '','' (map fmt
                     (map (rows diabetes ! (idx ! the_inv batch_file p)) feature_columns)))
              else files p)"
proof -
  let ?smp = "map (\<lambda>r. map r feature_columns) (map (\<lambda>i. rows diabetes ! i) idx)"
  have sel: "select_columns feature_columns diabetes =
      Inr \<lparr>columns = feature_columns, rows = rows diabetes\<rparr>"
    using cols by (simp add: select_columns_def)
  have smp: "sample_n 100 idx \<lparr>columns = feature_columns, rows = rows diabetes\<rparr> =
      Inr \<lparr>columns = feature_columns, rows = map (\<lambda>i. rows diabetes ! i) idx\<rparr>"
    using n by (simp add: sample_n_def)
  have vals: "frame_values \<lparr>columns = feature_columns, rows = map (\<lambda>i. rows diabetes ! i) idx\<rparr>
      = ?smp"
    by (simp add: frame_values_def)
  have "\<forall>i\<in>set [0..<100]. i < length ?smp" using len by simp
  from save_files_result [OF this, of fmt files]
  have "save_files fmt ?smp files [0..<100] =
    Inr (\<lambda>p. if p \<in> batch_file ` set [0..<100]
              then Some (join_sep '','' (map fmt (?smp ! (the_inv batch_file p))))
              else files p)" .
  moreover have "?smp ! the_inv batch_file p =
      map (rows diabetes ! (idx ! the_inv batch_file p)) feature_columns"
    if "p \<in> batch_file ` set [0..<100]" for p
  proof -
    from that obtain i where "i < 100" and "p = batch_file i" by auto
    then show ?thesis using len by (simp add: the_inv_batch_file)
  qed
  ultimately have "save_files fmt ?smp files [0..<100] =
    Inr (\<lambda>p. if p \<in> batch_file ` {..<100}
              then Some (join_sep '','' (map fmt
                     (map (rows diabetes ! (idx ! the_inv batch_file p)) feature_columns)))
              else files p)"
    by (auto simp: fun_eq_iff lessThan_atLeast0)
  then show ?thesis
    by (simp add: generate_batch_data_def sel smp vals)
qed

lemma valid_draw_rows:
  assumes "valid_draw n len idx"
  shows "n \<le> len"
proof -
  from assms have l: "length idx = n" and d: "distinct idx" and b: "set idx \<subseteq> {..<len}"
    by (auto simp: valid_draw_def list_all_iff)
  from d l have "card (set idx) = n" by (simp add: distinct_card)
  moreover from b have "card (set idx) \<le> card {..<len}" by (intro card_mono) simp_all
  ultimately show ?thesis by simp
qed

lemma example_draw_valid: "valid_draw 100 (length (rows (example_frame l))) example_draw"
  by (auto simp: valid_draw_def example_draw_def example_frame_def distinct_map inj_on_def
      list_all_iff)

lemma example_frame_columns:
  "list_all (\<lambda>c. c \<in> set (columns (example_frame l))) feature_columns"
  by (simp add: example_frame_def list_all_iff)

text \<open>
  C5. For a data set that has the eight feature columns and a draw of 100 of its rows, the
  step succeeds and writes 100 files: the file \<open>batch_file i\<close>, for each \<open>i\<close> below 100,
  holds the eight feature values of the \<open>i\<close>-th sampled row, in the order of
  \<open>feature_columns\<close>, separated by commas; every other path is left as it was. The names
  written are \<open>./batch-data/k.csv\<close> for \<open>k\<close> from 1 to 100, all different. The column
  \<open>Diabetic\<close> is not among the columns written.
\<close>

theorem generate_batch_data_files:
  assumes "list_all (\<lambda>c. c \<in> set (columns diabetes)) feature_columns"
    and "valid_draw 100 (length (rows diabetes)) idx"
  shows "\<exists>files'. generate_batch_data fmt idx diabetes files = Inr files' \<and>
    (\<forall>i<100. files' (batch_file i) =
       Some (join_sep '','' (map (\<lambda>c. fmt ((rows diabetes ! (idx ! i)) c)) feature_columns))) \<and>
    (\<forall>p. p \<notin> batch_file ` {..<100} \<longrightarrow> files' p = files p) \<and>
    batch_file ` {..<100} = (\<lambda>k. ''./batch-data/'' @ str_nat k @ ''.csv'') ` {1..100} \<and>
    card (batch_file ` {..<100}) = 100 \<and>
    length feature_columns = 8 \<and> ''Diabetic'' \<notin> set feature_columns"
proof -
  from assms(2) have len: "length idx = 100" by (simp add: valid_draw_def)
  note gen = generate_batch_data_eq [OF assms(1) valid_draw_rows [OF assms(2)] len, of fmt files]
  have "inj_on batch_file {..<100}" by (auto simp: inj_on_def dest: batch_file_inj)
  then have card: "card (batch_file ` {..<100}) = 100" by (simp add: card_image)
  have fc: "length feature_columns = 8 \<and> ''Diabetic'' \<notin> set feature_columns"
    by (simp add: feature_columns_def)
  let ?F = "\<lambda>p. if p \<in> batch_file ` {..<100}
              then Some (join_sep '','' (map fmt
                     (map (rows diabetes ! (idx ! the_inv batch_file p)) feature_columns)))
              else files p"
  have a: "\<forall>i<100. ?F (batch_file i) =
      Some (join_sep '','' (map (\<lambda>c. fmt ((rows diabetes ! (idx ! i)) c)) feature_columns))"
    by (auto simp: the_inv_batch_file comp_def)
  have b: "\<forall>p. p \<notin> batch_file ` {..<100} \<longrightarrow> ?F p = files p" by simp
  from gen a b batch_file_names card fc show ?thesis by blast
qed

text \<open>
  The theorem at the example data set: the first and the last file.
\<close>

theorem generate_batch_data_files_witness:
  "\<exists>files'. generate_batch_data example_str example_draw (example_frame 1) Map.empty = Inr files' \<and>
     files' ''./batch-data/1.csv'' = Some ''119,119,119,119,119,119,119,140'' \<and>
     files' ''./batch-data/100.csv'' = Some ''20,20,20,20,20,20,20,41''"
proof -
  from generate_batch_data_files [where fmt = example_str and files = Map.empty,
      OF example_frame_columns [of 1] example_draw_valid [of 1]]
  obtain files' where g: "generate_batch_data example_str example_draw (example_frame 1) Map.empty
      = Inr files'"
    and f: "\<forall>i<100. files' (batch_file i) =
       Some (join_sep '','' (map (\<lambda>c. example_str ((rows (example_frame 1) ! (example_draw ! i)) c))
          feature_columns))"
    by blast
  have n0: "batch_file 0 = ''./batch-data/1.csv''"
    by (simp add: batch_file_eq str_nat_small digit_char_def)
  have n99: "batch_file 99 = ''./batch-data/100.csv''"
    by (simp add: batch_file_eq str_nat.simps digit_char_def)
  have d0: "example_draw ! 0 = 119" and d99: "example_draw ! 99 = 20"
    by (simp_all add: example_draw_def)
  have r119: "rows (example_frame 1) ! 119 =
      (\<lambda>c. if c = ''Diabetic'' then 1 else if c = ''Age'' then 140 else 119)"
    by (auto simp: example_frame_def fun_eq_iff)
  have r20: "rows (example_frame 1) ! 20 =
      (\<lambda>c. if c = ''Diabetic'' then 1 else if c = ''Age'' then 41 else 20)"
    by (auto simp: example_frame_def fun_eq_iff)
  from f have "files' (batch_file 0) =
       Some (join_sep '','' (map (\<lambda>c. example_str ((rows (example_frame 1) ! (example_draw ! 0)) c))
          feature_columns))" by simp
  then have a: "files' ''./batch-data/1.csv'' = Some ''119,119,119,119,119,119,119,140''"
    unfolding n0 d0 r119
    by (simp add: feature_columns_def example_str_def str_nat.simps digit_char_def)
  from f have "files' (batch_file 99) =
       Some (join_sep '','' (map (\<lambda>c. example_str ((rows (example_frame 1) ! (example_draw ! 99)) c))
          feature_columns))" by simp
  then have b: "files' ''./batch-data/100.csv'' = Some ''20,20,20,20,20,20,20,41''"
    unfolding n99 d99 r20
    by (simp add: feature_columns_def example_str_def str_nat.simps digit_char_def)
  from g a b show ?thesis by blast
qed

text \<open>
  C10. Two data sets with the same columns and the same number of rows that agree on the
  eight feature columns (\<open>Diabetic\<close> is not one of them) give, for the same draw of rows, the
  same outcome of the generation step: the same files, and so the same uploaded data.
\<close>

theorem label_has_no_influence:
  assumes "columns d1 = columns d2"
    and "length (rows d1) = length (rows d2)"
    and "list_all (\<lambda>i. i < length (rows d1)) idx"
    and "\<forall>i<length (rows d1). \<forall>c\<in>set feature_columns. (rows d1 ! i) c = (rows d2 ! i) c"
  shows "generate_batch_data fmt idx d1 files = generate_batch_data fmt idx d2 files \<and>
    map_sum id upload (generate_batch_data fmt idx d1 files) =
      map_sum id upload (generate_batch_data fmt idx d2 files) \<and>
    ''Diabetic'' \<notin> set feature_columns"
proof -
  have "map (\<lambda>r. map r feature_columns) (map (\<lambda>i. rows d1 ! i) idx) =
        map (\<lambda>r. map r feature_columns) (map (\<lambda>i. rows d2 ! i) idx)"
    using assms(3,4) by (auto simp: list_all_iff)
  then have "generate_batch_data fmt idx d1 files = generate_batch_data fmt idx d2 files"
    using assms(1,2)
    by (simp add: generate_batch_data_def select_columns_def sample_n_def frame_values_def
        del: map_map)
  then show ?thesis by (simp add: feature_columns_def)
qed

text \<open>
  The theorem at two data sets that differ in the label of every row.
\<close>

theorem label_has_no_influence_witness:
  "(rows (example_frame 0) ! 0) ''Diabetic'' = 0 \<and>
   (rows (example_frame 1) ! 0) ''Diabetic'' = 1 \<and>
   generate_batch_data example_str example_draw (example_frame 0) Map.empty =
   generate_batch_data example_str example_draw (example_frame 1) Map.empty"
proof -
  have 1: "columns (example_frame 0) = columns (example_frame 1)"
    by (simp add: example_frame_def)
  have 2: "length (rows (example_frame 0)) = length (rows (example_frame 1))"
    by (simp add: example_frame_def)
  have 3: "list_all (\<lambda>i. i < length (rows (example_frame 0))) example_draw"
    using example_draw_valid [of 0] by (simp add: valid_draw_def)
  have 4: "\<forall>i<length (rows (example_frame 0)). \<forall>c\<in>set feature_columns.
      (rows (example_frame 0) ! i) c = (rows (example_frame 1) ! i) c"
    by (auto simp: example_frame_def feature_columns_def)
  have 5: "(rows (example_frame 0) ! 0) ''Diabetic'' = 0"
    "(rows (example_frame 1) ! 0) ''Diabetic'' = 1"
    by (simp_all add: example_frame_def)
  from label_has_no_influence [where fmt = example_str and files = Map.empty, OF 1 2 3 4] 5
  show ?thesis by blast
qed

section \<open>Properties of the results file\<close>

lemma split_on_nonempty: "split_on d s \<noteq> []"
  by (induction s) (auto split: list.splits)

lemma split_on_no_delim: "d \<notin> set s \<Longrightarrow> split_on d s = [s]"
  by (induction s) auto

lemma split_on_append: "d \<notin> set a \<Longrightarrow> split_on d (a @ d # b) = a # split_on d b"
  by (induction a) auto

lemma field_safe_no_colon: "field_safe s \<Longrightarrow> CHR '':'' \<notin> set s"
  by (auto simp: field_safe_def list_all_iff)

lemma digit_cases:
  assumes "d < (10::nat)"
  shows "d = 0 \<or> d = 1 \<or> d = 2 \<or> d = 3 \<or> d = 4 \<or> d = 5 \<or> d = 6 \<or> d = 7 \<or> d = 8 \<or> d = 9"
  using assms by arith

lemma digit_value_digit_char: "d < 10 \<Longrightarrow> digit_value (digit_char d) = d"
  using digit_cases [of d] by (auto simp: digit_value_def digit_char_def)

lemma digits_value_snoc: "digits_value (ds @ [c]) = 10 * digits_value ds + digit_value c"
  by (simp add: digits_value_def)

lemma digits_value_str_nat: "digits_value (str_nat n) = n"
proof (induction n rule: str_nat.induct)
  case (1 n)
  show ?case
  proof (cases "n < 10")
    case True
    then show ?thesis
      by (simp add: str_nat_small digits_value_def digit_value_digit_char)
  next
    case False
    then have "str_nat n = str_nat (n div 10) @ [digit_char (n mod 10)]"
      by (subst str_nat.simps) simp
    then show ?thesis
      using "1.IH" [OF False] by (simp add: digits_value_snoc digit_value_digit_char)
  qed
qed

lemma str_nat_all_digits: "list_all is_digit (str_nat n)"
  unfolding list_all_iff is_digit_def using str_nat_digits [of n] by blast

lemma digit_not_space: "is_digit c \<Longrightarrow> \<not> is_space c"
  by (auto simp: is_digit_def is_space_def)

lemma digit_not_sign: "is_digit c \<Longrightarrow> c \<noteq> CHR ''-'' \<and> c \<noteq> CHR ''+'' \<and> c \<noteq> CHR '':''"
  by (auto simp: is_digit_def)

lemma parse_unsigned:
  assumes "list_all is_digit ds" and "ds \<noteq> []" and "int (digits_value ds) < 2 ^ 63"
  shows "parse_int64 (CHR '' '' # ds) = Some (int (digits_value ds))"
proof -
  from assms(2) obtain c cs where ds: "ds = c # cs" by (cases ds) auto
  with assms(1) have c: "is_digit c" by simp
  have 1: "dropWhile is_space (CHR '' '' # ds) = ds"
    using digit_not_space [OF c] by (simp add: ds is_space_def)
  have 2: "take 1 ds \<noteq> ''-''" "take 1 ds \<noteq> ''+''"
    using digit_not_sign [OF c] by (simp_all add: ds)
  have 3: "takeWhile is_digit ds = ds" "dropWhile is_digit ds = []"
    using assms(1) by (simp_all add: list_all_iff)
  have 4: "- (2 ^ 63) \<le> int (digits_value ds)"
    by (rule order_trans [of _ 0]) simp_all
  show ?thesis
    unfolding parse_int64_def Let_def 1 using 2 assms(2,3) 4 by (simp add: 3)
qed

lemma parse_negative:
  assumes "list_all is_digit ds" and "ds \<noteq> []" and "int (digits_value ds) \<le> 2 ^ 63"
  shows "parse_int64 (CHR '' '' # CHR ''-'' # ds) = Some (- int (digits_value ds))"
proof -
  have 1: "dropWhile is_space (CHR '' '' # CHR ''-'' # ds) = CHR ''-'' # ds"
    by (simp add: is_space_def)
  have 3: "takeWhile is_digit ds = ds" "dropWhile is_digit ds = []"
    using assms(1) by (simp_all add: list_all_iff)
  have 4: "- int (digits_value ds) < 2 ^ 63"
    by (rule le_less_trans [of _ 0]) simp_all
  show ?thesis
    unfolding parse_int64_def Let_def 1 using assms(2,3) 4 by (simp add: 3)
qed

lemma parse_str_int:
  assumes "- (2 ^ 63) \<le> n" and "n < 2 ^ 63"
  shows "parse_int64 (CHR '' '' # str_int n) = Some n"
proof (cases "n < 0")
  case True
  have "int (digits_value (str_nat (nat (- n)))) \<le> 2 ^ 63"
    using assms(1) True by (simp add: digits_value_str_nat)
  from parse_negative [OF str_nat_all_digits str_nat_nonempty this] True
  show ?thesis by (simp add: str_int_def digits_value_str_nat)
next
  case False
  have "int (digits_value (str_nat (nat n))) < 2 ^ 63"
    using assms(2) False by (simp add: digits_value_str_nat)
  from parse_unsigned [OF str_nat_all_digits str_nat_nonempty this] False
  show ?thesis by (simp add: str_int_def digits_value_str_nat)
qed

lemma str_nat_no_colon: "CHR '':'' \<notin> set (str_nat k)"
proof
  assume "CHR '':'' \<in> set (str_nat k)"
  with str_nat_digits [of k] have "CHR '':'' \<in> set ''0123456789''" by blast
  then show False by simp
qed

lemma str_int_no_colon: "CHR '':'' \<notin> set (str_int n)"
  by (simp add: str_int_def str_nat_no_colon)

lemma split_result_line:
  assumes "field_safe (basename f)"
  shows "split_on CHR '':'' (result_line f (str_int n)) = [basename f, CHR '' '' # str_int n]"
proof -
  have "CHR '':'' \<notin> set (CHR '' '' # str_int n)"
    using str_int_no_colon [of n] by simp
  then have "split_on CHR '':'' (CHR '' '' # str_int n) = [CHR '' '' # str_int n]"
    by (rule split_on_no_delim)
  moreover have "result_line f (str_int n) = basename f @ CHR '':'' # (CHR '' '' # str_int n)"
    by (simp add: result_line_def)
  ultimately show ?thesis
    using split_on_append [OF field_safe_no_colon [OF assms]] by simp
qed

lemma result_line_not_blank: "\<not> blank_line CHR '':'' (result_line f p)"
  by (simp add: blank_line_def result_line_def)

lemma parse_all_predictions:
  assumes "list_all (\<lambda>n. - (2 ^ 63) \<le> n \<and> n < 2 ^ 63) ns"
  shows "parse_all (map (\<lambda>n. CHR '' '' # str_int n) ns) = Some ns"
  using assms by (induction ns) (simp_all add: parse_str_int)

lemma parse_all_names:
  assumes "xs \<noteq> []" and "list_all (\<lambda>x. parse_int64 x = None) xs"
  shows "parse_all xs = None"
  using assms by (cases xs) simp_all

lemma read_csv_rows:
  assumes "filter (\<lambda>l. \<not> blank_line d l) lines = lines"
    and "map (split_on d) lines = tbl"
    and "tbl = r # rs"
    and "list_all (\<lambda>x. length x = length r) rs"
  shows "read_csv special d lines =
    Inr (map (\<lambda>j. convert_column special (map (\<lambda>x. x ! j) tbl)) [0..<length r])"
proof -
  have wide: "\<not> list_ex (\<lambda>x. length r < length x) rs"
    using assms(4) by (auto simp: list_all_iff list_ex_iff)
  have "map (\<lambda>x. x @ replicate (length r - length x) []) rs = rs"
    using assms(4) by (auto simp: list_all_iff map_idI)
  then have pad: "map (\<lambda>x. x @ replicate (length r - length x) []) (r # rs) = tbl"
    by (simp add: assms(3))
  show ?thesis
    unfolding read_csv_def assms(1) assms(2) unfolding assms(3) list.case
    using wide by (simp only: if_False Let_def pad [unfolded assms(3)])
qed

text \<open>
  C3, as the code has it. Take a non-empty list of result lines, each made by
  \<open>result_line\<close> from a path and the text of an integer prediction that fits into 64 bits,
  where each basename has no colon (nor quote character or line break) and is a text that
  the reader keeps: not an integer, nor another number, truth value or marker of a missing
  value. Reading the lines with the delimiter \<open>:\<close> and no header gives exactly two
  columns, named \<open>File\<close> and \<open>Prediction\<close>: the first holds the basenames as texts, the
  second the predictions as integers (the blank that \<open>run\<close> writes after the colon is
  skipped by the conversion), line by line.
\<close>

theorem results_round_trip:
  assumes "items \<noteq> []"
    and "list_all (\<lambda>(f, n). field_safe (basename f) \<and> parse_int64 (basename f) = None \<and>
           \<not> special (basename f) \<and> - (2 ^ 63) \<le> n \<and> n < 2 ^ 63) items"
  shows "read_results special (map (\<lambda>(f, n). result_line f (str_int n)) items) =
    Inr [(''File'', TextColumn (map (\<lambda>(f, n). basename f) items)),
         (''Prediction'', Int64 (map (\<lambda>(f, n). n) items))]"
proof -
  let ?lines = "map (\<lambda>(f, n). result_line f (str_int n)) items"
  let ?names = "map (\<lambda>(f, n). basename f) items"
  let ?preds = "map (\<lambda>(f, n). n) items"
  let ?row = "\<lambda>(f, n). [basename f, CHR '' '' # str_int n]"
  let ?rows = "map ?row items"
  have keep: "filter (\<lambda>l. \<not> blank_line CHR '':'' l) ?lines = ?lines"
    by (auto simp: filter_id_conv result_line_not_blank)
  have rows: "map (split_on CHR '':'') ?lines = ?rows"
    using assms(2) by (auto simp: list_all_iff split_result_line)
  from assms(1) obtain x xs where items: "items = x # xs" by (cases items) auto
  have cons: "?rows = ?row x # map ?row xs" by (simp add: items)
  have len: "length (?row x) = 2" by (simp add: case_prod_unfold)
  have same: "list_all (\<lambda>r. length r = length (?row x)) (map ?row xs)"
    unfolding len by (auto simp: list_all_iff)
  have c0: "map (\<lambda>r. r ! 0) ?rows = ?names" by (auto simp: case_prod_unfold)
  have c1: "map (\<lambda>r. r ! 1) ?rows = map (\<lambda>n. CHR '' '' # str_int n) ?preds"
    by (auto simp: case_prod_unfold)
  have names: "convert_column special ?names = TextColumn ?names"
  proof -
    have "?names \<noteq> []" using assms(1) by simp
    moreover have "list_all (\<lambda>b. parse_int64 b = None) ?names"
      using assms(2) by (auto simp: list_all_iff)
    ultimately have "parse_all ?names = None" by (rule parse_all_names)
    moreover have "\<not> list_ex special ?names"
      using assms(2) by (auto simp: list_all_iff list_ex_iff)
    ultimately show ?thesis by (simp add: convert_column_def)
  qed
  have preds: "convert_column special (map (\<lambda>n. CHR '' '' # str_int n) ?preds) = Int64 ?preds"
  proof -
    have "list_all (\<lambda>n. - (2 ^ 63) \<le> n \<and> n < 2 ^ 63) ?preds"
      using assms(2) by (auto simp: list_all_iff)
    then have "parse_all (map (\<lambda>n. CHR '' '' # str_int n) ?preds) = Some ?preds"
      by (rule parse_all_predictions)
    then show ?thesis unfolding convert_column_def by (simp only: option.simps)
  qed
  have two: "[0..<2] = [0, 1]" by (simp add: upt_rec)
  have csv: "read_csv special CHR '':'' ?lines = Inr [TextColumn ?names, Int64 ?preds]"
    unfolding read_csv_rows [OF keep rows cons same] len two
    by (simp only: list.map c0 c1 names preds)
  show ?thesis
    unfolding read_results_def csv by (simp add: set_columns_def)
qed

text \<open>
  The theorem at the lines for two files.
\<close>

theorem results_round_trip_witness:
  "read_results example_special [''1.csv: 1'', ''2.csv: 0''] =
     Inr [(''File'', TextColumn [''1.csv'', ''2.csv'']), (''Prediction'', Int64 [1, 0])]"
proof -
  let ?items = "[(''batch-data/1.csv'', 1 :: int), (''batch-data/2.csv'', 0)]"
  have 1: "?items \<noteq> []" by simp
  have b: "basename ''batch-data/1.csv'' = ''1.csv''" "basename ''batch-data/2.csv'' = ''2.csv''"
    by (simp_all add: basename_def)
  have p: "parse_int64 ''1.csv'' = None" "parse_int64 ''2.csv'' = None"
    by (simp_all add: parse_int64_def Let_def is_space_def is_digit_def)
  have s: "\<not> example_special ''1.csv''" "\<not> example_special ''2.csv''"
    by (simp_all add: example_special_def)
  have 2: "list_all (\<lambda>(f, n). field_safe (basename f) \<and> parse_int64 (basename f) = None \<and>
           \<not> example_special (basename f) \<and> - (2 ^ 63) \<le> n \<and> n < 2 ^ 63) ?items"
    by (simp add: b p s field_safe_def)
  have l: "map (\<lambda>(f, n). result_line f (str_int n)) ?items = [''1.csv: 1'', ''2.csv: 0'']"
    by (simp add: result_line_def b str_int_def str_nat_small digit_char_def)
  from results_round_trip [OF 1 2] show ?thesis
    unfolding l by (simp add: b)
qed

text \<open>
  C3 as stated fails for a file whose name contains a colon: its line has three fields,
  and naming the two columns raises \<open>ValueError\<close>. It also fails for a file whose name is
  an integer: the \<open>File\<close> column then holds the number 7, not the basename \<open>007\<close>.
\<close>

theorem results_colon_counterexample:
  "fst (run example_libs loaded [''batch-data/a:b.csv'']) = Inr [''a:b.csv: 1''] \<and>
   split_on CHR '':'' ''a:b.csv: 1'' = [''a'', ''b.csv'', '' 1''] \<and>
   read_results example_special [''a:b.csv: 1''] = Inl ValueError \<and>
   result_line ''batch-data/007'' (str_int 1) = ''007: 1'' \<and>
   read_results example_special [''007: 1''] =
     Inr [(''File'', Int64 [7]), (''Prediction'', Int64 [1])]"
proof -
  have 1: "fst (run example_libs loaded [''batch-data/a:b.csv'']) = Inr [''a:b.csv: 1'']"
    by (simp add: run_def run_body_def example_libs_def loaded_def example_files_def
      example_predict_def emit_def result_line_def basename_def example_str_def
      str_nat_small digit_char_def)
  have 2: "split_on CHR '':'' ''a:b.csv: 1'' = [''a'', ''b.csv'', '' 1'']" by simp
  have 3: "read_results example_special [''a:b.csv: 1''] = Inl ValueError"
    by (simp add: read_results_def read_csv_def blank_line_def set_columns_def Let_def)
  have 4: "result_line ''batch-data/007'' (str_int 1) = ''007: 1''"
    by (simp add: result_line_def basename_def str_int_def str_nat_small digit_char_def)
  have p: "parse_int64 ''007'' = Some 7" "parse_int64 '' 1'' = Some 1"
    by (simp_all add: parse_int64_def Let_def is_space_def is_digit_def digits_value_def
        digit_value_def)
  have 5: "read_results example_special [''007: 1''] =
     Inr [(''File'', Int64 [7]), (''Prediction'', Int64 [1])]"
    by (simp add: read_results_def read_csv_def blank_line_def set_columns_def Let_def
        convert_column_def p upt_rec)
  from 1 2 3 4 5 show ?thesis by blast
qed

section \<open>Properties of the cells that find or register a resource\<close>

text \<open>
  C2, as the code has it. When the cluster exists, the lookup raises nothing: the target
  found is bound to \<open>inference_cluster\<close>, the cell prints that it found the cluster, and no
  exception leaves the cell. The compute cell catches and prints an exception \<open>e\<close> exactly
  when the lookup raises \<open>ComputeTargetException\<close> (the cluster does not exist) and then
  \<open>provisioning_configuration\<close>, \<open>ComputeTarget.create\<close> or \<open>wait_for_completion\<close> raises
  \<open>e\<close>, an \<open>Exception\<close>; \<open>e\<close> is then all that the cell prints, no exception leaves the
  cell, and \<open>inference_cluster\<close> is as before the cell, or bound to the created cluster
  when only the waiting raised. Any other exception of the lookup leaves the cell,
  unprinted. For the data set, an
  \<open>Exception\<close> raised by \<open>register\<close> is caught and printed, no exception leaves the step,
  and \<open>batch_data_set\<close> stays the unregistered file data set.
\<close>

theorem existing_resources:
  "(ComputeTarget sdk = Inr found \<longrightarrow>
      create_compute sdk prev =
        \<lparr>var = Some found, out = [Text ''Found existing cluster, use it.''], raised = None\<rparr>) \<and>
   (ExnText e \<in> set (out (create_compute sdk prev)) \<longleftrightarrow>
      ComputeTarget sdk = Inl ComputeTargetException \<and> is_Exception e \<and>
      (provisioning_configuration sdk = Inl e \<or>
       (\<exists>compute_config. provisioning_configuration sdk = Inr compute_config \<and>
          (ComputeTarget_create sdk compute_config = Inl e \<or>
           (\<exists>created. ComputeTarget_create sdk compute_config = Inr created \<and>
              wait_for_completion sdk created = Inl e))))) \<and>
   (ExnText e \<in> set (out (create_compute sdk prev)) \<longrightarrow>
      out (create_compute sdk prev) = [ExnText e] \<and> raised (create_compute sdk prev) = None \<and>
      var (create_compute sdk prev) =
        (case provisioning_configuration sdk of
           Inl _ \<Rightarrow> prev
         | Inr compute_config \<Rightarrow>
             (case ComputeTarget_create sdk compute_config of
                Inl _ \<Rightarrow> prev
              | Inr created \<Rightarrow> Some created))) \<and>
   (ComputeTarget sdk = Inl e \<and> e \<noteq> ComputeTargetException \<longrightarrow>
      create_compute sdk prev = \<lparr>var = prev, out = [], raised = Some e\<rparr>) \<and>
   (is_Exception e' \<longrightarrow>
      register_dataset unregistered (Inl e') =
        \<lparr>var = Some unregistered, out = [ExnText e', Text ''Done!''], raised = None\<rparr>)"
proof (intro conjI)
  show "ComputeTarget sdk = Inr found \<longrightarrow>
      create_compute sdk prev =
        \<lparr>var = Some found, out = [Text ''Found existing cluster, use it.''], raised = None\<rparr>"
    by (simp add: create_compute_def)
  show "ExnText e \<in> set (out (create_compute sdk prev)) \<longleftrightarrow>
      ComputeTarget sdk = Inl ComputeTargetException \<and> is_Exception e \<and>
      (provisioning_configuration sdk = Inl e \<or>
       (\<exists>compute_config. provisioning_configuration sdk = Inr compute_config \<and>
          (ComputeTarget_create sdk compute_config = Inl e \<or>
           (\<exists>created. ComputeTarget_create sdk compute_config = Inr created \<and>
              wait_for_completion sdk created = Inl e))))"
    by (auto simp: create_compute_def except_Exception_def split: sum.splits if_splits)
  show "ExnText e \<in> set (out (create_compute sdk prev)) \<longrightarrow>
      out (create_compute sdk prev) = [ExnText e] \<and> raised (create_compute sdk prev) = None \<and>
      var (create_compute sdk prev) =
        (case provisioning_configuration sdk of
           Inl _ \<Rightarrow> prev
         | Inr compute_config \<Rightarrow>
             (case ComputeTarget_create sdk compute_config of
                Inl _ \<Rightarrow> prev
              | Inr created \<Rightarrow> Some created))"
    by (auto simp: create_compute_def except_Exception_def split: sum.splits if_splits)
  show "ComputeTarget sdk = Inl e \<and> e \<noteq> ComputeTargetException \<longrightarrow>
      create_compute sdk prev = \<lparr>var = prev, out = [], raised = Some e\<rparr>"
    by (simp add: create_compute_def)
  show "is_Exception e' \<longrightarrow>
      register_dataset unregistered (Inl e') =
        \<lparr>var = Some unregistered, out = [ExnText e', Text ''Done!''], raised = None\<rparr>"
    by (simp add: register_dataset_def except_Exception_def)
qed

text \<open>
  The theorem at an existing cluster, at a missing cluster that cannot be created, and at
  a registration that raises.
\<close>

theorem existing_resources_witness:
  "create_compute existing_cluster None =
     \<lparr>var = Some ''CT-915-02-JMDL'', out = [Text ''Found existing cluster, use it.''],
      raised = None\<rparr> \<and>
   ExnText UserErrorException \<in> set (out (create_compute missing_cluster None)) \<and>
   out (create_compute missing_cluster None) = [ExnText UserErrorException] \<and>
   raised (create_compute missing_cluster None) = None \<and>
   var (create_compute missing_cluster None) = None \<and>
   register_dataset ''batch-data'' (Inl UserErrorException) =
     \<lparr>var = Some ''batch-data'', out = [ExnText UserErrorException, Text ''Done!''],
      raised = None\<rparr>"
proof -
  note a = existing_resources [where sdk = existing_cluster and found = "''CT-915-02-JMDL''"
      and prev = None and e = UserErrorException
      and e' = UserErrorException and unregistered = "''batch-data''"]
  note b = existing_resources [where sdk = missing_cluster and found = "''CT-915-02-JMDL''"
      and prev = None and e = UserErrorException
      and e' = UserErrorException and unregistered = "''batch-data''"]
  have 1: "ComputeTarget existing_cluster = Inr ''CT-915-02-JMDL''"
    by (simp add: existing_cluster_def)
  have 2: "ComputeTarget missing_cluster = Inl ComputeTargetException \<and>
    is_Exception UserErrorException \<and>
    provisioning_configuration missing_cluster = Inr ''STANDARD_DS11_V2'' \<and>
    ComputeTarget_create missing_cluster ''STANDARD_DS11_V2'' = Inl UserErrorException"
    by (simp add: missing_cluster_def)
  from b 2 have 3: "ExnText UserErrorException \<in> set (out (create_compute missing_cluster None))"
    by blast
  from b 3 have 4: "var (create_compute missing_cluster None) =
        (case provisioning_configuration missing_cluster of
           Inl _ \<Rightarrow> None
         | Inr compute_config \<Rightarrow>
             (case ComputeTarget_create missing_cluster compute_config of
                Inl _ \<Rightarrow> None
              | Inr created \<Rightarrow> Some created))"
    by blast
  then have 5: "var (create_compute missing_cluster None) = None"
    by (simp add: missing_cluster_def)
  from a 1 b 3 5 show ?thesis by blast
qed

text \<open>
  C2 as stated fails for the cluster: when it exists, no exception is caught or printed;
  the cell prints one line of text.
\<close>

theorem existing_cluster_counterexample:
  "create_compute existing_cluster None =
     \<lparr>var = Some ''CT-915-02-JMDL'', out = [Text ''Found existing cluster, use it.''],
      raised = None\<rparr> \<and>
   ExnText ComputeTargetException \<notin> set (out (create_compute existing_cluster None)) \<and>
   out (create_compute existing_cluster None) \<noteq> []"
  by (simp add: create_compute_def existing_cluster_def)

section \<open>Properties of the call of the REST endpoint\<close>

text \<open>
  C6. The notebook posts the payload with the experiment name to the endpoint. When the
  response's JSON body holds a run identifier under the key \<open>Id\<close> (the platform's
  contract), the notebook constructs the pipeline run from the experiment
  \<open>mslearn-diabetes-batch\<close> and exactly this identifier, and waits for the completion of
  that run.
\<close>

theorem rest_run_id:
  assumes "post P rest_endpoint auth_header [(''ExperimentName'', ''mslearn-diabetes-batch'')] =
      Inr (Inr body)"
    and "body ''Id'' = Some run_id"
    and "experiments P ''mslearn-diabetes-batch'' = Some experiment"
  shows "snd (call_rest_endpoint P rest_endpoint auth_header) =
      [HttpPost rest_endpoint auth_header [(''ExperimentName'', ''mslearn-diabetes-batch'')],
       PipelineRun experiment run_id, WaitForCompletion experiment run_id] \<and>
    fst (call_rest_endpoint P rest_endpoint auth_header) = wait_run P experiment run_id"
  using assms by (simp add: call_rest_endpoint_def Let_def split: sum.splits)

text \<open>
  The theorem at the example platform.
\<close>

theorem rest_run_id_witness:
  "call_rest_endpoint example_platform ''https://example.invalid/pipelines/1'' ''Bearer token'' =
     (Inr ''Finished'',
      [HttpPost ''https://example.invalid/pipelines/1'' ''Bearer token''
         [(''ExperimentName'', ''mslearn-diabetes-batch'')],
       PipelineRun 7 ''run-42'', WaitForCompletion 7 ''run-42''])"
proof -
  have 1: "post example_platform ''https://example.invalid/pipelines/1'' ''Bearer token''
      [(''ExperimentName'', ''mslearn-diabetes-batch'')] = Inr (Inr [''Id'' \<mapsto> ''run-42''])"
    by (simp add: example_platform_def)
  have 2: "[''Id'' \<mapsto> ''run-42''] ''Id'' = Some ''run-42''" by simp
  have 3: "experiments example_platform ''mslearn-diabetes-batch'' = Some 7"
    by (simp add: example_platform_def)
  have 4: "wait_run example_platform 7 ''run-42'' = Inr ''Finished''"
    by (simp add: example_platform_def)
  from rest_run_id [OF 1 2 3] 4 show ?thesis
    by (simp add: prod_eq_iff)
qed

section \<open>Properties of the order of the cells\<close>

lemma notebook_calls_eq:
  "notebook_calls found =
     cell_calls found 2 @ cell_calls found 4 @ cell_calls found 6 @ cell_calls found 8 @
     cell_calls found 16 @ cell_calls found 18 @ cell_calls found 20 @ cell_calls found 22 @
     cell_calls found 24 @ cell_calls found 26 @ cell_calls found 28 @ cell_calls found 30 @
     cell_calls found 32 @ cell_calls found 34"
  by (simp add: notebook_calls_def upt_rec [of _ "numeral _"] upt_rec [of _ "Suc _"])

text \<open>
  C7, as the code has it. Run from top to bottom, the notebook goes through its stages in
  the order connect, train, register, upload data, provision compute, define the step, run
  the pipeline, download results, publish, call the REST endpoint, poll, download results:
  the results are downloaded twice, the first time right after the first run and before
  the pipeline is published.
\<close>

theorem notebook_stage_order:
  "remdups_adj (notebook_stages found) =
     [Connect, Train, Register, UploadData, Provision, DefineStep, RunPipeline,
      DownloadResults, Publish, CallRest, Poll, DownloadResults]"
  by (cases found) (simp_all add: notebook_stages_def notebook_calls_eq)

text \<open>
  C7 as stated fails: the calls are not in the order of the stages, since the first
  download of the results comes before the publishing of the pipeline.
\<close>

theorem download_before_publish_counterexample:
  "\<not> sorted (map stage_rank (notebook_stages True))"
  by (simp add: notebook_stages_def notebook_calls_eq)

end
